theory Spec2Isabelle
  imports Complex_Main "HOL-Library.Sublist"
begin

section \<open>The filesystem the notebooks' glue code acts on\<close>

text \<open>
  The build notebook (\<^verbatim>\<open>3-build-accelerator-with-finn.ipynb\<close>) touches the filesystem
  through four library calls only: \<^verbatim>\<open>os.path.exists\<close>, \<^verbatim>\<open>shutil.rmtree\<close>,
  \<^verbatim>\<open>open(filename, "r")\<close> and \<^verbatim>\<open>json.load\<close>. A filesystem is a list of entries, each a
  path with its node and the access the process has to it; the first entry of a path
  counts. A node is a regular file with its text, a directory, or a symbolic link with
  its target. Paths are compared as strings: all of them, link targets included, are
  taken relative to the working directory, and a link in the middle of a path is not
  followed.
\<close>

datatype node = File string | Dir | Link string

datatype access = Access (readable: bool) (writable: bool)

type_synonym filesystem = "(string \<times> node \<times> access) list"

datatype error =
    FileNotFoundError
  | IsADirectoryError
  | NotADirectoryError
  | PermissionError
  | OSError
  | JSONDecodeError

text \<open>
  Following symbolic links, as \<^verbatim>\<open>os.stat\<close> does: the path and the node that a path leads
  to. At most 40 links are followed, as on Linux; a longer chain (a cycle, for one) is
  the error \<^verbatim>\<open>ELOOP\<close>.
\<close>

datatype resolved = Missing string | Loop | Found string node access

fun resolve :: "nat \<Rightarrow> filesystem \<Rightarrow> string \<Rightarrow> resolved" where
  "resolve 0 fs p = Loop"
| "resolve (Suc n) fs p =
     (case map_of fs p of
        None \<Rightarrow> Missing p
      | Some (Link t, a) \<Rightarrow> resolve n fs t
      | Some (nd, a) \<Rightarrow> Found p nd a)"

definition stat :: "filesystem \<Rightarrow> string \<Rightarrow> resolved" where
  "stat fs p = resolve 41 fs p"

text \<open>
  \<^verbatim>\<open>os.path.exists(path)\<close>: true when the path leads to a file or a directory, false
  when nothing is there and when a link is broken.
\<close>

definition os_path_exists :: "filesystem \<Rightarrow> string \<Rightarrow> bool" where
  "os_path_exists fs path = (case stat fs path of Found p nd a \<Rightarrow> True | _ \<Rightarrow> False)"

text \<open>
  A path lies below a directory when it extends the directory's path by \<^verbatim>\<open>/\<close>; the tree
  of a directory is the directory and all that lies below it. \<^verbatim>\<open>os.path.dirname\<close> gives
  the directory that holds a path, the empty path for a path without \<^verbatim>\<open>/\<close>.
\<close>

definition below :: "string \<Rightarrow> string \<Rightarrow> bool" where
  "below d p = prefix (d @ ''/'') p"

definition in_tree :: "string \<Rightarrow> string \<Rightarrow> bool" where
  "in_tree d p = (p = d \<or> below d p)"

definition dirname :: "string \<Rightarrow> string" where
  "dirname p = rev (drop 1 (dropWhile (\<lambda>c. c \<noteq> CHR ''/'') (rev p)))"

text \<open>
  Removing an entry needs write access to the directory that holds it, and removing a
  tree needs read access to each of its directories, to list them. A directory that the
  filesystem has no entry for (the working directory, at the empty path) is taken to
  allow it.
\<close>

definition may_remove :: "filesystem \<Rightarrow> string \<Rightarrow> bool" where
  "may_remove fs p =
     (case map_of fs (dirname p) of None \<Rightarrow> True | Some (nd, a) \<Rightarrow> writable a)"

definition may_list :: "string \<times> node \<times> access \<Rightarrow> bool" where
  "may_list e = (case e of (p, nd, a) \<Rightarrow> nd \<noteq> Dir \<or> readable a)"

definition tree_entries :: "filesystem \<Rightarrow> string \<Rightarrow> filesystem" where
  "tree_entries fs d = filter (\<lambda>e. in_tree d (fst e)) fs"

definition removable_tree :: "filesystem \<Rightarrow> string \<Rightarrow> bool" where
  "removable_tree fs d = list_all (\<lambda>e. may_remove fs (fst e) \<and> may_list e) (tree_entries fs d)"

definition remove_tree :: "filesystem \<Rightarrow> string \<Rightarrow> filesystem" where
  "remove_tree fs d = filter (\<lambda>e. \<not> in_tree d (fst e)) fs"

text \<open>
  \<^verbatim>\<open>shutil.rmtree(path)\<close> removes a directory and everything below it. It does not
  follow links: it raises \<^verbatim>\<open>FileNotFoundError\<close> when nothing is at the path, \<^verbatim>\<open>OSError\<close>
  when the path is a symbolic link (also one to a directory), \<^verbatim>\<open>NotADirectoryError\<close> when
  it is a regular file, and \<^verbatim>\<open>PermissionError\<close> when it may not list or remove an entry
  of the tree. The filesystem after an exception is not part of the result.
\<close>

definition shutil_rmtree :: "filesystem \<Rightarrow> string \<Rightarrow> error + filesystem" where
  "shutil_rmtree fs path =
     (case map_of fs path of
        None \<Rightarrow> Inl FileNotFoundError
      | Some (Link t, a) \<Rightarrow> Inl OSError
      | Some (File t, a) \<Rightarrow> Inl NotADirectoryError
      | Some (Dir, a) \<Rightarrow>
          if removable_tree fs path then Inr (remove_tree fs path) else Inl PermissionError)"

text \<open>
  \<^verbatim>\<open>open(filename, mode)\<close>. The notebooks open files with mode \<^verbatim>\<open>"r"\<close> only, so the
  type of modes has this one value. The result is the filesystem after the call, which
  is the one before it, and the text the handle reads. The call follows links and
  raises when nothing is at the path, when the path leads to a directory, when the
  file may not be read, and when the links do not end.
\<close>

datatype open_mode = Mode_r

definition py_open ::
    "filesystem \<Rightarrow> string \<Rightarrow> open_mode \<Rightarrow> error + (filesystem \<times> string)" where
  "py_open fs filename mode =
     (case mode of
        Mode_r \<Rightarrow>
          (case stat fs filename of
             Missing p \<Rightarrow> Inl FileNotFoundError
           | Loop \<Rightarrow> Inl OSError
           | Found p (File t) a \<Rightarrow> if readable a then Inr (fs, t) else Inl PermissionError
           | Found p Dir a \<Rightarrow> Inl IsADirectoryError
           | Found p (Link t) a \<Rightarrow> Inl OSError))"

section \<open>The output-directory cleanup block\<close>

text \<open>
  Cells 5, 19 and 33 of the build notebook each hold the block
  \<^verbatim>\<open>
  #Delete previous run results if exist
  if os.path.exists(estimates_output_dir):
      shutil.rmtree(estimates_output_dir)
      print("Previous run results deleted!")
  \<close>
  with the directory names below. The state is the filesystem and the lines printed so
  far; an exception of \<^verbatim>\<open>shutil.rmtree\<close> leaves the block.
\<close>

definition estimates_output_dir :: string where
  "estimates_output_dir = ''output_estimates_only''"

definition rtlsim_output_dir :: string where
  "rtlsim_output_dir = ''output_ipstitch_ooc_rtlsim''"

definition final_output_dir :: string where
  "final_output_dir = ''output_final''"

definition cleanup_block ::
    "string \<Rightarrow> filesystem \<times> string list \<Rightarrow> error + (filesystem \<times> string list)" where
  "cleanup_block dir s =
     (case s of (fs, out) \<Rightarrow>
        if os_path_exists fs dir then
          (case shutil_rmtree fs dir of
             Inl e \<Rightarrow> Inl e
           | Inr fs' \<Rightarrow> Inr (fs', out @ [''Previous run results deleted!'']))
        else Inr (fs, out))"

section \<open>The helper \<^verbatim>\<open>read_json_dict\<close>\<close>

text \<open>
  Cell 13 of the build notebook:
  \<^verbatim>\<open>
  import json
  def read_json_dict(filename):
      with open(filename, "r") as f:
          ret = json.load(f)
      return ret
  \<close>
  \<^verbatim>\<open>json.load\<close> is passed as a function from the text of the file to the decoded value
  or an error. The function returns what \<^verbatim>\<open>json.load\<close> returned together with the
  filesystem after the call.
\<close>

definition read_json_dict ::
    "(string \<Rightarrow> error + 'v) \<Rightarrow> filesystem \<Rightarrow> string \<Rightarrow> (error + 'v) \<times> filesystem" where
  "read_json_dict json_load fs filename =
     (case py_open fs filename Mode_r of
        Inl e \<Rightarrow> (Inl e, fs)
      | Inr (fs', f) \<Rightarrow> (json_load f, fs'))"

section \<open>JSON values and a reader for the report files\<close>

text \<open>
  The values the notebook gets from the report files and displays: Python's \<^verbatim>\<open>dict\<close>,
  \<^verbatim>\<open>list\<close>, \<^verbatim>\<open>str\<close>, \<^verbatim>\<open>int\<close>, \<^verbatim>\<open>float\<close>, \<^verbatim>\<open>bool\<close> and \<^verbatim>\<open>None\<close>. A dictionary keeps the
  order of its keys, as Python's does. A float is the rational its decimal text denotes.
\<close>

datatype json =
    JNull
  | JBool bool
  | JInt int
  | JFloat rat
  | JStr string
  | JArr "json list"
  | JObj "(string \<times> json) list"

text \<open>
  The reader below stands for \<^verbatim>\<open>json.load\<close> wherever a concrete decoder is needed. It
  reads objects, arrays, strings without escapes, integers, decimals without exponent
  and the three literals; any other text is a \<^verbatim>\<open>JSONDecodeError\<close>. The fuel bounds
  the nesting depth plus the number of members, and the length of the text is enough.
\<close>

fun skip_ws :: "string \<Rightarrow> string" where
  "skip_ws [] = []"
| "skip_ws (c # cs) =
     (if c = CHR '' '' \<or> c = CHR 0x0A \<or> c = CHR 0x0D \<or> c = CHR 0x09
      then skip_ws cs else c # cs)"

definition is_digit :: "char \<Rightarrow> bool" where
  "is_digit c = (48 \<le> (of_char c :: nat) \<and> (of_char c :: nat) \<le> 57)"

definition digit_val :: "char \<Rightarrow> nat" where
  "digit_val c = of_char c - 48"

fun take_digits :: "string \<Rightarrow> string \<times> string" where
  "take_digits [] = ([], [])"
| "take_digits (c # cs) =
     (if is_digit c then (case take_digits cs of (ds, r) \<Rightarrow> (c # ds, r)) else ([], c # cs))"

definition nat_of_digits :: "string \<Rightarrow> nat" where
  "nat_of_digits ds = foldl (\<lambda>n c. 10 * n + digit_val c) 0 ds"

text \<open>The text after an opening quote, up to the closing quote (code 0x22).\<close>

fun scan_string :: "string \<Rightarrow> (string \<times> string) option" where
  "scan_string [] = None"
| "scan_string (c # cs) =
     (if c = CHR 0x22 then Some ([], cs)
      else if c = CHR 0x5C then None
      else (case scan_string cs of None \<Rightarrow> None | Some (s, r) \<Rightarrow> Some (c # s, r)))"

definition scan_number :: "string \<Rightarrow> (json \<times> string) option" where
  "scan_number s =
     (let (neg, s1) = (case s of
                         [] \<Rightarrow> (False, s)
                       | c # cs \<Rightarrow> if c = CHR ''-'' then (True, cs) else (False, s));
          (ip, s2) = take_digits s1;
          sign = (if neg then - 1 else 1)
      in if ip = [] then None
         else (case s2 of
                 [] \<Rightarrow> Some (JInt (sign * int (nat_of_digits ip)), s2)
               | c # cs \<Rightarrow>
                   if c = CHR ''.'' then
                     (let (fp, s3) = take_digits cs
                      in if fp = [] then None
                         else Some (JFloat (of_int sign *
                                 (of_nat (nat_of_digits ip)
                                    + of_nat (nat_of_digits fp) / 10 ^ length fp)), s3))
                   else Some (JInt (sign * int (nat_of_digits ip)), s2)))"

fun parse_value :: "nat \<Rightarrow> string \<Rightarrow> (json \<times> string) option"
and parse_members :: "nat \<Rightarrow> string \<Rightarrow> ((string \<times> json) list \<times> string) option"
and parse_elements :: "nat \<Rightarrow> string \<Rightarrow> (json list \<times> string) option" where
  "parse_value 0 s = None"
| "parse_value (Suc n) s =
     (case skip_ws s of
        [] \<Rightarrow> None
      | c # cs \<Rightarrow>
          if c = CHR ''{'' then
            (case skip_ws cs of
               [] \<Rightarrow> None
             | d # ds \<Rightarrow>
                 if d = CHR ''}'' then Some (JObj [], ds)
                 else (case parse_members n (d # ds) of
                         None \<Rightarrow> None
                       | Some (ms, r) \<Rightarrow> Some (JObj ms, r)))
          else if c = CHR ''['' then
            (case skip_ws cs of
               [] \<Rightarrow> None
             | d # ds \<Rightarrow>
                 if d = CHR '']'' then Some (JArr [], ds)
                 else (case parse_elements n (d # ds) of
                         None \<Rightarrow> None
                       | Some (es, r) \<Rightarrow> Some (JArr es, r)))
          else if c = CHR 0x22 then
            (case scan_string cs of None \<Rightarrow> None | Some (t, r) \<Rightarrow> Some (JStr t, r))
          else if take 4 (c # cs) = ''true'' then Some (JBool True, drop 4 (c # cs))
          else if take 5 (c # cs) = ''false'' then Some (JBool False, drop 5 (c # cs))
          else if take 4 (c # cs) = ''null'' then Some (JNull, drop 4 (c # cs))
          else scan_number (c # cs))"
| "parse_members 0 s = None"
| "parse_members (Suc n) s =
     (case skip_ws s of
        [] \<Rightarrow> None
      | c # cs \<Rightarrow>
          if c = CHR 0x22 then
            (case scan_string cs of
               None \<Rightarrow> None
             | Some (k, r) \<Rightarrow>
                 (case skip_ws r of
                    [] \<Rightarrow> None
                  | d # ds \<Rightarrow>
                      if d = CHR '':'' then
                        (case parse_value n ds of
                           None \<Rightarrow> None
                         | Some (v, r') \<Rightarrow>
                             (case skip_ws r' of
                                [] \<Rightarrow> None
                              | e # es \<Rightarrow>
                                  if e = CHR '','' then
                                    (case parse_members n es of
                                       None \<Rightarrow> None
                                     | Some (ms, r'') \<Rightarrow> Some ((k, v) # ms, r''))
                                  else if e = CHR ''}'' then Some ([(k, v)], es)
                                  else None))
                      else None))
          else None)"
| "parse_elements 0 s = None"
| "parse_elements (Suc n) s =
     (case parse_value n s of
        None \<Rightarrow> None
      | Some (v, r) \<Rightarrow>
          (case skip_ws r of
             [] \<Rightarrow> None
           | e # es \<Rightarrow>
               if e = CHR '','' then
                 (case parse_elements n es of
                    None \<Rightarrow> None
                  | Some (vs, r') \<Rightarrow> Some (v # vs, r'))
               else if e = CHR '']'' then Some ([v], es)
               else None))"

definition json_loads :: "string \<Rightarrow> error + json" where
  "json_loads s =
     (case parse_value (length s) s of
        None \<Rightarrow> Inl JSONDecodeError
      | Some (v, r) \<Rightarrow> if skip_ws r = [] then Inr v else Inl JSONDecodeError)"

text \<open>The lines of a text file or of a cell's printed output, joined again.\<close>

definition unlines :: "string list \<Rightarrow> string" where
  "unlines ls = concat (map (\<lambda>l. l @ [CHR 0x0A]) ls)"

text \<open>Reading a JSON object: the value under a key, and all numbers it holds.\<close>

fun obj_get :: "json \<Rightarrow> string \<Rightarrow> json option" where
  "obj_get (JObj kvs) k = map_of kvs k"
| "obj_get v k = None"



fun json_numbers :: "json \<Rightarrow> rat list" where
  "json_numbers (JInt i) = [of_int i]"
| "json_numbers (JFloat r) = [r]"
| "json_numbers (JArr vs) = concat (map json_numbers vs)"
| "json_numbers (JObj kvs) = concat (map (\<lambda>kv. json_numbers (snd kv)) kvs)"
| "json_numbers v = []"

section \<open>Writing JSON\<close>




















definition is_space :: "char \<Rightarrow> bool" where
  "is_space c = (c = CHR '' '' \<or> c = CHR 0x0A \<or> c = CHR 0x0D \<or> c = CHR 0x09)"

definition ws :: "string \<Rightarrow> bool" where
  "ws w = list_all is_space w"


definition delim :: "string \<Rightarrow> bool" where
  "delim r = (case r of [] \<Rightarrow> True
              | c # cs \<Rightarrow> c = CHR '','' \<or> c = CHR '']'' \<or> c = CHR ''}'' \<or> is_space c)"

definition start_char :: "char \<Rightarrow> bool" where
  "start_char c = (\<not> is_space c \<and> c \<noteq> CHR '']'' \<and> c \<noteq> CHR ''}'')"



section \<open>Python values and \<^verbatim>\<open>json.dump\<close>, \<^verbatim>\<open>json.load\<close>\<close>

text \<open>
  The Python values that \<^verbatim>\<open>json.dump\<close> accepts: \<^verbatim>\<open>None\<close>, booleans, integers, floats,
  strings, lists, tuples and dictionaries. A dictionary is the list of its items in
  insertion order; its keys are strings or integers here (Python also admits floats,
  booleans and \<^verbatim>\<open>None\<close> as keys, which \<^verbatim>\<open>json.dump\<close> turns into text as well).
\<close>

datatype pykey = KStr string | KInt int

datatype pyobj =
    PNone
  | PBool bool
  | PInt int
  | PFloat rat
  | PStr string
  | PList "pyobj list"
  | PTuple "pyobj list"
  | PDict "(pykey \<times> pyobj) list"




text \<open>
  What \<^verbatim>\<open>json.load\<close> returns for a JSON value: an array becomes a list and an object a
  dictionary with string keys, built item by item, so that a key that occurs again
  replaces the value and keeps the place of its first occurrence.
\<close>

fun setitem :: "'k \<Rightarrow> 'v \<Rightarrow> ('k \<times> 'v) list \<Rightarrow> ('k \<times> 'v) list" where
  "setitem k v [] = [(k, v)]"
| "setitem k v (e # d) = (if fst e = k then (k, v) # d else e # setitem k v d)"

definition dict_of :: "('k \<times> 'v) list \<Rightarrow> ('k \<times> 'v) list" where
  "dict_of kvs = foldl (\<lambda>d kv. setitem (fst kv) (snd kv) d) [] kvs"

fun of_json :: "json \<Rightarrow> pyobj" where
  "of_json JNull = PNone"
| "of_json (JBool b) = PBool b"
| "of_json (JInt i) = PInt i"
| "of_json (JFloat r) = PFloat r"
| "of_json (JStr s) = PStr s"
| "of_json (JArr vs) = PList (map of_json vs)"
| "of_json (JObj kvs) = PDict (dict_of (map (\<lambda>kv. (KStr (fst kv), of_json (snd kv))) kvs))"

definition json_load :: "string \<Rightarrow> error + pyobj" where
  "json_load t = (case json_loads t of Inl e \<Rightarrow> Inl e | Inr v \<Rightarrow> Inr (of_json v))"



section \<open>The notebooks as data\<close>

text \<open>
  Several properties of the material are about what its cells contain: which library
  calls, in which order, with which keyword arguments, and which constructs are absent.
  For these the code cells are written down as Python syntax trees. The statement and
  expression types cover the constructs the cells use and, so that their absence can be
  stated, the compound statements they do not use (\<^verbatim>\<open>try\<close>, \<^verbatim>\<open>for\<close>, \<^verbatim>\<open>while\<close>,
  \<^verbatim>\<open>class\<close>, \<^verbatim>\<open>async def\<close>, \<^verbatim>\<open>await\<close>).
\<close>

datatype binop = OpAdd | OpSub | OpMult | OpDiv

datatype expr =
    Name string
  | StrLit string
  | IntLit int
  | FloatLit rat
  | BoolLit bool
  | Attr expr string
  | Call expr "expr list" "(string \<times> expr) list"
  | Subscript expr expr
  | BinOp expr binop expr
  | Neg expr
  | ListE "expr list"
  | TupleE "expr list"
  | DictE "(expr \<times> expr) list"
  | ListComp expr string expr
  | Await expr

text \<open>
  \<^verbatim>\<open>Call f args kws\<close> is \<^verbatim>\<open>f(args, k=v, ...)\<close>; \<^verbatim>\<open>ListComp e x it\<close> is
  \<^verbatim>\<open>[e for x in it]\<close>. \<^verbatim>\<open>Shell\<close> is an IPython shell escape (\<^verbatim>\<open>! command\<close>),
  \<^verbatim>\<open>Magic\<close> a cell magic (\<^verbatim>\<open>%%time\<close>), \<^verbatim>\<open>Comment\<close> a line that starts with \<^verbatim>\<open>#\<close>.
  \<^verbatim>\<open>Try body handlers\<close> holds the statements of the \<^verbatim>\<open>except\<close> clauses.
\<close>

datatype stmt =
    Import string "string option"
  | FromImport string "string list"
  | Assign string expr
  | Expr expr
  | If expr "stmt list" "stmt list"
  | FunDef string "string list" "stmt list"
  | AsyncFunDef string "string list" "stmt list"
  | With expr string "stmt list"
  | Return expr
  | Shell string
  | Magic string
  | Comment string
  | Try "stmt list" "stmt list"
  | For string expr "stmt list"
  | While expr "stmt list"
  | ClassDef string "stmt list"

text \<open>
  A cell's recorded outputs: the lines printed to standard output and the value the
  notebook displays for the cell's last expression.
\<close>

datatype cell_output = Stdout "string list" | Result json

datatype cell = Markdown | Code "stmt list" "cell_output list"

section \<open>The import notebook\<close>

text \<open>
  The notebook on importing a Brevitas network (29 cells, 16 of them code). None of its
  cells has a recorded output.
\<close>

text \<open>
  Cell 1 of the import notebook:
  \<^verbatim>\<open>
  import onnx
  from finn.util.visualization import showSrc, showInNetron
  \<close>
\<close>

definition import_cell_1 :: "stmt list" where
  "import_cell_1 =
     [Import ''onnx'' None,
      FromImport ''finn.util.visualization'' [''showSrc'', ''showInNetron'']]"

text \<open>
  Cell 3 of the import notebook:
  \<^verbatim>\<open>
  from brevitas_examples import bnn_pynq
  showSrc(bnn_pynq.models.FC)
  \<close>
\<close>

definition import_cell_3 :: "stmt list" where
  "import_cell_3 =
     [FromImport ''brevitas_examples'' [''bnn_pynq''],
      Expr (Call (Name ''showSrc'') [Attr (Attr (Name ''bnn_pynq'') ''models'') ''FC''] [])]"

text \<open>
  Cell 5 of the import notebook:
  \<^verbatim>\<open>
  from finn.util.test import get_test_model
  lfc = get_test_model(netname = "LFC", wbits = 1, abits = 1, pretrained = True)
  lfc
  \<close>
\<close>

definition import_cell_5 :: "stmt list" where
  "import_cell_5 =
     [FromImport ''finn.util.test'' [''get_test_model''],
      Assign ''lfc'' (Call (Name ''get_test_model'') [] [(''netname'', StrLit ''LFC''), (''wbits'', IntLit 1), (''abits'', IntLit 1), (''pretrained'', BoolLit True)]),
      Expr (Name ''lfc'')]"

text \<open>
  Cell 7 of the import notebook:
  \<^verbatim>\<open>
  import torch
  import matplotlib.pyplot as plt
  from pkgutil import get_data
  import onnx
  import onnx.numpy_helper as nph
  raw_i = get_data("finn.data", "onnx/mnist-conv/test_data_set_0/input_0.pb")
  input_tensor = onnx.load_tensor_from_string(raw_i)
  input_tensor_npy = nph.to_array(input_tensor)
  input_tensor_pyt = torch.from_numpy(input_tensor_npy).float()
  imgplot = plt.imshow(input_tensor_npy.reshape(28,28), cmap='gray')
  \<close>
\<close>

definition import_cell_7 :: "stmt list" where
  "import_cell_7 =
     [Import ''torch'' None,
      Import ''matplotlib.pyplot'' (Some ''plt''),
      FromImport ''pkgutil'' [''get_data''],
      Import ''onnx'' None,
      Import ''onnx.numpy_helper'' (Some ''nph''),
      Assign ''raw_i'' (Call (Name ''get_data'') [StrLit ''finn.data'', StrLit ''onnx/mnist-conv/test_data_set_0/input_0.pb''] []),
      Assign ''input_tensor'' (Call (Attr (Name ''onnx'') ''load_tensor_from_string'') [Name ''raw_i''] []),
      Assign ''input_tensor_npy'' (Call (Attr (Name ''nph'') ''to_array'') [Name ''input_tensor''] []),
      Assign ''input_tensor_pyt'' (Call (Attr (Call (Attr (Name ''torch'') ''from_numpy'') [Name ''input_tensor_npy''] []) ''float'') [] []),
      Assign ''imgplot'' (Call (Attr (Name ''plt'') ''imshow'') [Call (Attr (Name ''input_tensor_npy'') ''reshape'') [IntLit 28, IntLit 28] []] [(''cmap'', StrLit ''gray'')])]"

text \<open>
  Cell 8 of the import notebook:
  \<^verbatim>\<open>
  from torch.nn.functional import softmax
  # do forward pass in PyTorch/Brevitas
  produced = lfc.forward(input_tensor_pyt).detach()
  probabilities = softmax(produced, dim=-1).flatten()
  probabilities
  \<close>
\<close>

definition import_cell_8 :: "stmt list" where
  "import_cell_8 =
     [FromImport ''torch.nn.functional'' [''softmax''],
      Comment ''do forward pass in PyTorch/Brevitas'',
      Assign ''produced'' (Call (Attr (Call (Attr (Name ''lfc'') ''forward'') [Name ''input_tensor_pyt''] []) ''detach'') [] []),
      Assign ''probabilities'' (Call (Attr (Call (Name ''softmax'') [Name ''produced''] [(''dim'', Neg (IntLit 1))]) ''flatten'') [] []),
      Expr (Name ''probabilities'')]"

text \<open>
  Cell 9 of the import notebook:
  \<^verbatim>\<open>
  import numpy as np
  objects = [str(x) for x in range(10)]
  y_pos = np.arange(len(objects))
  plt.bar(y_pos, probabilities, align='center', alpha=0.5)
  plt.xticks(y_pos, objects)
  plt.ylabel('Predicted Probability')
  plt.title('LFC-w1a1 Predictions for Image')
  plt.show()
  \<close>
\<close>

definition import_cell_9 :: "stmt list" where
  "import_cell_9 =
     [Import ''numpy'' (Some ''np''),
      Assign ''objects'' (ListComp (Call (Name ''str'') [Name ''x''] []) ''x'' (Call (Name ''range'') [IntLit 10] [])),
      Assign ''y_pos'' (Call (Attr (Name ''np'') ''arange'') [Call (Name ''len'') [Name ''objects''] []] []),
      Expr (Call (Attr (Name ''plt'') ''bar'') [Name ''y_pos'', Name ''probabilities''] [(''align'', StrLit ''center''), (''alpha'', FloatLit 0.5)]),
      Expr (Call (Attr (Name ''plt'') ''xticks'') [Name ''y_pos'', Name ''objects''] []),
      Expr (Call (Attr (Name ''plt'') ''ylabel'') [StrLit ''Predicted Probability''] []),
      Expr (Call (Attr (Name ''plt'') ''title'') [StrLit ''LFC-w1a1 Predictions for Image''] []),
      Expr (Call (Attr (Name ''plt'') ''show'') [] [])]"

text \<open>
  Cell 11 of the import notebook:
  \<^verbatim>\<open>
  import brevitas.onnx as bo
  export_onnx_path = "/tmp/LFCW1A1.onnx"
  input_shape = (1, 1, 28, 28)
  bo.export_finn_onnx(lfc, input_shape, export_onnx_path)
  \<close>
\<close>

definition import_cell_11 :: "stmt list" where
  "import_cell_11 =
     [Import ''brevitas.onnx'' (Some ''bo''),
      Assign ''export_onnx_path'' (StrLit ''/tmp/LFCW1A1.onnx''),
      Assign ''input_shape'' (TupleE [IntLit 1, IntLit 1, IntLit 28, IntLit 28]),
      Expr (Call (Attr (Name ''bo'') ''export_finn_onnx'') [Name ''lfc'', Name ''input_shape'', Name ''export_onnx_path''] [])]"

text \<open>
  Cell 13 of the import notebook:
  \<^verbatim>\<open>
  showInNetron('/tmp/LFCW1A1.onnx')
  \<close>
\<close>

definition import_cell_13 :: "stmt list" where
  "import_cell_13 =
     [Expr (Call (Name ''showInNetron'') [StrLit ''/tmp/LFCW1A1.onnx''] [])]"

text \<open>
  Cell 16 of the import notebook:
  \<^verbatim>\<open>
  from finn.core.modelwrapper import ModelWrapper
  model = ModelWrapper(export_onnx_path)
  model.graph.node[8]
  \<close>
\<close>

definition import_cell_16 :: "stmt list" where
  "import_cell_16 =
     [FromImport ''finn.core.modelwrapper'' [''ModelWrapper''],
      Assign ''model'' (Call (Name ''ModelWrapper'') [Name ''export_onnx_path''] []),
      Expr (Subscript (Attr (Attr (Name ''model'') ''graph'') ''node'') (IntLit 8))]"

text \<open>
  Cell 18 of the import notebook:
  \<^verbatim>\<open>
  model.get_initializer(model.graph.node[8].input[1])
  \<close>
\<close>

definition import_cell_18 :: "stmt list" where
  "import_cell_18 =
     [Expr (Call (Attr (Name ''model'') ''get_initializer'') [Subscript (Attr (Subscript (Attr (Attr (Name ''model'') ''graph'') ''node'') (IntLit 8)) ''input'') (IntLit 1)] [])]"

text \<open>
  Cell 20 of the import notebook:
  \<^verbatim>\<open>
  model.get_tensor_datatype(model.graph.node[8].input[1]).name
  \<close>
\<close>

definition import_cell_20 :: "stmt list" where
  "import_cell_20 =
     [Expr (Attr (Call (Attr (Name ''model'') ''get_tensor_datatype'') [Subscript (Attr (Subscript (Attr (Attr (Name ''model'') ''graph'') ''node'') (IntLit 8)) ''input'') (IntLit 1)] []) ''name'')]"

text \<open>
  Cell 21 of the import notebook:
  \<^verbatim>\<open>
  model.get_tensor_shape(model.graph.node[8].input[1])
  \<close>
\<close>

definition import_cell_21 :: "stmt list" where
  "import_cell_21 =
     [Expr (Call (Attr (Name ''model'') ''get_tensor_shape'') [Subscript (Attr (Subscript (Attr (Attr (Name ''model'') ''graph'') ''node'') (IntLit 8)) ''input'') (IntLit 1)] [])]"

text \<open>
  Cell 23 of the import notebook:
  \<^verbatim>\<open>
  from finn.transformation.fold_constants import FoldConstants
  from finn.transformation.infer_shapes import InferShapes
  model = model.transform(InferShapes())
  model = model.transform(FoldConstants())
  export_onnx_path_transformed = "/tmp/LFCW1A1-clean.onnx"
  model.save(export_onnx_path_transformed)
  \<close>
\<close>

definition import_cell_23 :: "stmt list" where
  "import_cell_23 =
     [FromImport ''finn.transformation.fold_constants'' [''FoldConstants''],
      FromImport ''finn.transformation.infer_shapes'' [''InferShapes''],
      Assign ''model'' (Call (Attr (Name ''model'') ''transform'') [Call (Name ''InferShapes'') [] []] []),
      Assign ''model'' (Call (Attr (Name ''model'') ''transform'') [Call (Name ''FoldConstants'') [] []] []),
      Assign ''export_onnx_path_transformed'' (StrLit ''/tmp/LFCW1A1-clean.onnx''),
      Expr (Call (Attr (Name ''model'') ''save'') [Name ''export_onnx_path_transformed''] [])]"

text \<open>
  Cell 24 of the import notebook:
  \<^verbatim>\<open>
  showInNetron('/tmp/LFCW1A1-clean.onnx')
  \<close>
\<close>

definition import_cell_24 :: "stmt list" where
  "import_cell_24 =
     [Expr (Call (Name ''showInNetron'') [StrLit ''/tmp/LFCW1A1-clean.onnx''] [])]"

text \<open>
  Cell 26 of the import notebook:
  \<^verbatim>\<open>
  import finn.core.onnx_exec as oxe
  input_dict = {"0": nph.to_array(input_tensor)}
  output_dict = oxe.execute_onnx(model, input_dict)
  produced_finn = output_dict[list(output_dict.keys())[0]]
  
  produced_finn
  \<close>
\<close>

definition import_cell_26 :: "stmt list" where
  "import_cell_26 =
     [Import ''finn.core.onnx_exec'' (Some ''oxe''),
      Assign ''input_dict'' (DictE [(StrLit ''0'', Call (Attr (Name ''nph'') ''to_array'') [Name ''input_tensor''] [])]),
      Assign ''output_dict'' (Call (Attr (Name ''oxe'') ''execute_onnx'') [Name ''model'', Name ''input_dict''] []),
      Assign ''produced_finn'' (Subscript (Name ''output_dict'') (Subscript (Call (Name ''list'') [Call (Attr (Name ''output_dict'') ''keys'') [] []] []) (IntLit 0))),
      Expr (Name ''produced_finn'')]"

text \<open>
  Cell 27 of the import notebook:
  \<^verbatim>\<open>
  np.isclose(produced, produced_finn).all()
  \<close>
\<close>

definition import_cell_27 :: "stmt list" where
  "import_cell_27 =
     [Expr (Call (Attr (Call (Attr (Name ''np'') ''isclose'') [Name ''produced'', Name ''produced_finn''] []) ''all'') [] [])]"

definition import_notebook :: "cell list" where
  "import_notebook =
     [Markdown,
      Code import_cell_1 [],
      Markdown,
      Code import_cell_3 [],
      Markdown,
      Code import_cell_5 [],
      Markdown,
      Code import_cell_7 [],
      Code import_cell_8 [],
      Code import_cell_9 [],
      Markdown,
      Code import_cell_11 [],
      Markdown,
      Code import_cell_13 [],
      Markdown,
      Markdown,
      Code import_cell_16 [],
      Markdown,
      Code import_cell_18 [],
      Markdown,
      Code import_cell_20 [],
      Code import_cell_21 [],
      Markdown,
      Code import_cell_23 [],
      Code import_cell_24 [],
      Markdown,
      Code import_cell_26 [],
      Code import_cell_27 [],
      Markdown]"

section \<open>The build notebook\<close>

text \<open>
  \<^verbatim>\<open>3-build-accelerator-with-finn.ipynb\<close> (55 cells, 26 of them code), with the outputs
  recorded in it. A tab in a printed line is written as its character code.
\<close>

text \<open>
  Cell 5 of the build notebook:
  \<^verbatim>\<open>
  import finn.builder.build_dataflow as build
  import finn.builder.build_dataflow_config as build_cfg
  import os
  import shutil
  
  model_file = "cybsec-mlp-ready.onnx"
  
  estimates_output_dir = "output_estimates_only"
  
  #Delete previous run results if exist
  if os.path.exists(estimates_output_dir):
      shutil.rmtree(estimates_output_dir)
      print("Previous run results deleted!")
  
  
  cfg_estimates = build.DataflowBuildConfig(
      output_dir          = estimates_output_dir,
      mvau_wwidth_max     = 80,
      target_fps          = 1000000,
      synth_clk_period_ns = 10.0,
      fpga_part           = "xc7z020clg400-1",
      steps               = build_cfg.estimate_only_dataflow_steps,
      generate_outputs=[
          build_cfg.DataflowOutputType.ESTIMATE_REPORTS,
      ]
  )
  \<close>
\<close>

definition build_cell_5 :: "stmt list" where
  "build_cell_5 =
     [Import ''finn.builder.build_dataflow'' (Some ''build''),
      Import ''finn.builder.build_dataflow_config'' (Some ''build_cfg''),
      Import ''os'' None,
      Import ''shutil'' None,
      Assign ''model_file'' (StrLit ''cybsec-mlp-ready.onnx''),
      Assign ''estimates_output_dir'' (StrLit ''output_estimates_only''),
      Comment ''Delete previous run results if exist'',
      If (Call (Attr (Attr (Name ''os'') ''path'') ''exists'') [Name ''estimates_output_dir''] []) [Expr (Call (Attr (Name ''shutil'') ''rmtree'') [Name ''estimates_output_dir''] []), Expr (Call (Name ''print'') [StrLit ''Previous run results deleted!''] [])] [],
      Assign ''cfg_estimates'' (Call (Attr (Name ''build'') ''DataflowBuildConfig'') [] [(''output_dir'', Name ''estimates_output_dir''), (''mvau_wwidth_max'', IntLit 80), (''target_fps'', IntLit 1000000), (''synth_clk_period_ns'', FloatLit 10.0), (''fpga_part'', StrLit ''xc7z020clg400-1''), (''steps'', Attr (Name ''build_cfg'') ''estimate_only_dataflow_steps''), (''generate_outputs'', ListE [Attr (Attr (Name ''build_cfg'') ''DataflowOutputType'') ''ESTIMATE_REPORTS''])])]"

definition build_out_5 :: "cell_output list" where
  "build_out_5 =
     [Stdout
        [''Previous run results deleted!'']]"

text \<open>
  Cell 6 of the build notebook:
  \<^verbatim>\<open>
  %%time
  build.build_dataflow_cfg(model_file, cfg_estimates)
  \<close>
\<close>

definition build_cell_6 :: "stmt list" where
  "build_cell_6 =
     [Magic ''time'',
      Expr (Call (Attr (Name ''build'') ''build_dataflow_cfg'') [Name ''model_file'', Name ''cfg_estimates''] [])]"

definition build_out_6 :: "cell_output list" where
  "build_out_6 =
     [Stdout
        [''Building dataflow accelerator from cybsec-mlp-ready.onnx'',
         ''Intermediate outputs will be generated in /tmp/finn_dev_ubuntu'',
         ''Final outputs will be generated in output_estimates_only'',
         ''Build log is at output_estimates_only/build_dataflow.log'',
         ''Running step: step_tidy_up [1/7]'',
         ''Running step: step_streamline [2/7]'',
         ''Running step: step_convert_to_hls [3/7]'',
         ''Running step: step_create_dataflow_partition [4/7]'',
         ''Running step: step_target_fps_parallelization [5/7]'',
         ''Running step: step_apply_folding_config [6/7]'',
         ''Running step: step_generate_estimate_reports [7/7]'',
         ''Completed successfully'',
         ''CPU times: user 1.84 s, sys: 599 ms, total: 2.44 s'',
         ''Wall time: 1.77 s''],
      Result (JInt 0)]"

text \<open>
  Cell 8 of the build notebook:
  \<^verbatim>\<open>
  ! ls {estimates_output_dir}
  \<close>
\<close>

definition build_cell_8 :: "stmt list" where
  "build_cell_8 =
     [Shell ''ls {estimates_output_dir}'']"

definition build_out_8 :: "cell_output list" where
  "build_out_8 =
     [Stdout
        [''build_dataflow.log  intermediate_models  report  time_per_step.json'']]"

text \<open>
  Cell 9 of the build notebook:
  \<^verbatim>\<open>
  ! ls {estimates_output_dir}/report
  \<close>
\<close>

definition build_cell_9 :: "stmt list" where
  "build_cell_9 =
     [Shell ''ls {estimates_output_dir}/report'']"

definition build_out_9 :: "cell_output list" where
  "build_out_9 =
     [Stdout
        [''estimate_layer_config_alternatives.json  estimate_network_performance.json'',
         ''estimate_layer_cycles.json'' @ [CHR 0x09] @ [CHR 0x09] @ '' op_and_param_counts.json'',
         ''estimate_layer_resources.json'']]"

text \<open>
  Cell 11 of the build notebook:
  \<^verbatim>\<open>
  ! cat {estimates_output_dir}/report/estimate_network_performance.json
  \<close>
\<close>

definition build_cell_11 :: "stmt list" where
  "build_cell_11 =
     [Shell ''cat {estimates_output_dir}/report/estimate_network_performance.json'']"

definition build_out_11 :: "cell_output list" where
  \<open>build_out_11 =
     [Stdout
        [''{'',
         ''  "critical_path_cycles": 252,'',
         ''  "max_cycles": 64,'',
         ''  "max_cycles_node_name": "StreamingFCLayer_Batch_1",'',
         ''  "estimated_throughput_fps": 1562500.0,'',
         ''  "estimated_latency_ns": 2520.0'',
         ''}'']]\<close>

text \<open>
  Cell 13 of the build notebook:
  \<^verbatim>\<open>
  import json
  def read_json_dict(filename):
      with open(filename, "r") as f:
          ret = json.load(f)
      return ret
  \<close>
\<close>

definition build_cell_13 :: "stmt list" where
  "build_cell_13 =
     [Import ''json'' None,
      FunDef ''read_json_dict'' [''filename''] [With (Call (Name ''open'') [Name ''filename'', StrLit ''r''] []) ''f'' [Assign ''ret'' (Call (Attr (Name ''json'') ''load'') [Name ''f''] [])], Return (Name ''ret'')]]"

text \<open>
  Cell 14 of the build notebook:
  \<^verbatim>\<open>
  read_json_dict(estimates_output_dir + "/report/estimate_layer_cycles.json")
  \<close>
\<close>

definition build_cell_14 :: "stmt list" where
  "build_cell_14 =
     [Expr (Call (Name ''read_json_dict'') [BinOp (Name ''estimates_output_dir'') OpAdd (StrLit ''/report/estimate_layer_cycles.json'')] [])]"

definition build_out_14 :: "cell_output list" where
  "build_out_14 =
     [Result (JObj [(''StreamingFCLayer_Batch_0'', JInt 60), (''StreamingFCLayer_Batch_1'', JInt 64), (''StreamingFCLayer_Batch_2'', JInt 64), (''StreamingFCLayer_Batch_3'', JInt 64)])]"

text \<open>
  Cell 16 of the build notebook:
  \<^verbatim>\<open>
  read_json_dict(estimates_output_dir + "/report/estimate_layer_resources.json")
  \<close>
\<close>

definition build_cell_16 :: "stmt list" where
  "build_cell_16 =
     [Expr (Call (Name ''read_json_dict'') [BinOp (Name ''estimates_output_dir'') OpAdd (StrLit ''/report/estimate_layer_resources.json'')] [])]"

definition build_out_16 :: "cell_output list" where
  "build_out_16 =
     [Result (JObj [(''StreamingFCLayer_Batch_0'', JObj [(''BRAM_18K'', JInt 36), (''BRAM_efficiency'', JFloat 0.11574074074074074), (''LUT'', JInt 8184), (''URAM'', JInt 0), (''URAM_efficiency'', JInt 1), (''DSP'', JInt 0)]), (''StreamingFCLayer_Batch_1'', JObj [(''BRAM_18K'', JInt 4), (''BRAM_efficiency'', JFloat 0.1111111111111111), (''LUT'', JInt 1217), (''URAM'', JInt 0), (''URAM_efficiency'', JInt 1), (''DSP'', JInt 0)]), (''StreamingFCLayer_Batch_2'', JObj [(''BRAM_18K'', JInt 4), (''BRAM_efficiency'', JFloat 0.1111111111111111), (''LUT'', JInt 1217), (''URAM'', JInt 0), (''URAM_efficiency'', JInt 1), (''DSP'', JInt 0)]), (''StreamingFCLayer_Batch_3'', JObj [(''BRAM_18K'', JInt 1), (''BRAM_efficiency'', JFloat 0.006944444444444444), (''LUT'', JInt 341), (''URAM'', JInt 0), (''URAM_efficiency'', JInt 1), (''DSP'', JInt 0)]), (''total'', JObj [(''BRAM_18K'', JFloat 45.0), (''LUT'', JFloat 10959.0), (''URAM'', JFloat 0.0), (''DSP'', JFloat 0.0)])])]"

text \<open>
  Cell 19 of the build notebook:
  \<^verbatim>\<open>
  import finn.builder.build_dataflow as build
  import finn.builder.build_dataflow_config as build_cfg
  import os
  import shutil
  
  model_file = "cybsec-mlp-ready.onnx"
  
  rtlsim_output_dir = "output_ipstitch_ooc_rtlsim"
  
  #Delete previous run results if exist
  if os.path.exists(rtlsim_output_dir):
      shutil.rmtree(rtlsim_output_dir)
      print("Previous run results deleted!")
  
  cfg_stitched_ip = build.DataflowBuildConfig(
      output_dir          = rtlsim_output_dir,
      mvau_wwidth_max     = 80,
      target_fps          = 1000000,
      synth_clk_period_ns = 10.0,
      fpga_part           = "xc7z020clg400-1",
      generate_outputs=[
          build_cfg.DataflowOutputType.STITCHED_IP,
          build_cfg.DataflowOutputType.RTLSIM_PERFORMANCE,
          build_cfg.DataflowOutputType.OOC_SYNTH,
      ]
  )
  \<close>
\<close>

definition build_cell_19 :: "stmt list" where
  "build_cell_19 =
     [Import ''finn.builder.build_dataflow'' (Some ''build''),
      Import ''finn.builder.build_dataflow_config'' (Some ''build_cfg''),
      Import ''os'' None,
      Import ''shutil'' None,
      Assign ''model_file'' (StrLit ''cybsec-mlp-ready.onnx''),
      Assign ''rtlsim_output_dir'' (StrLit ''output_ipstitch_ooc_rtlsim''),
      Comment ''Delete previous run results if exist'',
      If (Call (Attr (Attr (Name ''os'') ''path'') ''exists'') [Name ''rtlsim_output_dir''] []) [Expr (Call (Attr (Name ''shutil'') ''rmtree'') [Name ''rtlsim_output_dir''] []), Expr (Call (Name ''print'') [StrLit ''Previous run results deleted!''] [])] [],
      Assign ''cfg_stitched_ip'' (Call (Attr (Name ''build'') ''DataflowBuildConfig'') [] [(''output_dir'', Name ''rtlsim_output_dir''), (''mvau_wwidth_max'', IntLit 80), (''target_fps'', IntLit 1000000), (''synth_clk_period_ns'', FloatLit 10.0), (''fpga_part'', StrLit ''xc7z020clg400-1''), (''generate_outputs'', ListE [Attr (Attr (Name ''build_cfg'') ''DataflowOutputType'') ''STITCHED_IP'', Attr (Attr (Name ''build_cfg'') ''DataflowOutputType'') ''RTLSIM_PERFORMANCE'', Attr (Attr (Name ''build_cfg'') ''DataflowOutputType'') ''OOC_SYNTH''])])]"

definition build_out_19 :: "cell_output list" where
  "build_out_19 =
     [Stdout
        [''Previous run results deleted!'']]"

text \<open>
  Cell 20 of the build notebook:
  \<^verbatim>\<open>
  %%time
  build.build_dataflow_cfg(model_file, cfg_stitched_ip)
  \<close>
\<close>

definition build_cell_20 :: "stmt list" where
  "build_cell_20 =
     [Magic ''time'',
      Expr (Call (Attr (Name ''build'') ''build_dataflow_cfg'') [Name ''model_file'', Name ''cfg_stitched_ip''] [])]"

definition build_out_20 :: "cell_output list" where
  "build_out_20 =
     [Stdout
        [''Building dataflow accelerator from cybsec-mlp-ready.onnx'',
         ''Intermediate outputs will be generated in /tmp/finn_dev_ubuntu'',
         ''Final outputs will be generated in output_ipstitch_ooc_rtlsim'',
         ''Build log is at output_ipstitch_ooc_rtlsim/build_dataflow.log'',
         ''Running step: step_tidy_up [1/16]'',
         ''Running step: step_streamline [2/16]'',
         ''Running step: step_convert_to_hls [3/16]'',
         ''Running step: step_create_dataflow_partition [4/16]'',
         ''Running step: step_target_fps_parallelization [5/16]'',
         ''Running step: step_apply_folding_config [6/16]'',
         ''Running step: step_generate_estimate_reports [7/16]'',
         ''Running step: step_hls_codegen [8/16]'',
         ''Running step: step_hls_ipgen [9/16]'',
         ''Running step: step_set_fifo_depths [10/16]'',
         ''Running step: step_create_stitched_ip [11/16]'',
         ''Running step: step_measure_rtlsim_performance [12/16]'',
         ''Running step: step_make_pynq_driver [13/16]'',
         ''Running step: step_out_of_context_synthesis [14/16]'',
         ''Running step: step_synthesize_bitfile [15/16]'',
         ''Running step: step_deployment_package [16/16]'',
         ''Completed successfully'',
         ''CPU times: user 4.76 s, sys: 710 ms, total: 5.47 s'',
         ''Wall time: 8min 5s''],
      Result (JInt 0)]"

text \<open>
  Cell 23 of the build notebook:
  \<^verbatim>\<open>
  ! ls {rtlsim_output_dir}/stitched_ip
  \<close>
\<close>

definition build_cell_23 :: "stmt list" where
  "build_cell_23 =
     [Shell ''ls {rtlsim_output_dir}/stitched_ip'']"

definition build_out_23 :: "cell_output list" where
  "build_out_23 =
     [Stdout
        [''all_verilog_srcs.txt'' @ [CHR 0x09] @ [CHR 0x09] @ ''       finn_vivado_stitch_proj.xpr'',
         ''finn_vivado_stitch_proj.cache'' @ [CHR 0x09] @ ''       ip'',
         ''finn_vivado_stitch_proj.hw'' @ [CHR 0x09] @ ''       make_project.sh'',
         ''finn_vivado_stitch_proj.ip_user_files  make_project.tcl'',
         ''finn_vivado_stitch_proj.sim'' @ [CHR 0x09] @ ''       vivado.jou'',
         ''finn_vivado_stitch_proj.srcs'' @ [CHR 0x09] @ ''       vivado.log'']]"

text \<open>
  Cell 25 of the build notebook:
  \<^verbatim>\<open>
  ! ls {rtlsim_output_dir}/report
  \<close>
\<close>

definition build_cell_25 :: "stmt list" where
  "build_cell_25 =
     [Shell ''ls {rtlsim_output_dir}/report'']"

definition build_out_25 :: "cell_output list" where
  "build_out_25 =
     [Stdout
        [''estimate_layer_resources_hls.json  rtlsim_performance.json'',
         ''ooc_synth_and_timing.json'']]"

text \<open>
  Cell 27 of the build notebook:
  \<^verbatim>\<open>
  ! cat {rtlsim_output_dir}/report/ooc_synth_and_timing.json
  \<close>
\<close>

definition build_cell_27 :: "stmt list" where
  "build_cell_27 =
     [Shell ''cat {rtlsim_output_dir}/report/ooc_synth_and_timing.json'']"

definition build_out_27 :: "cell_output list" where
  \<open>build_out_27 =
     [Stdout
        [''{'',
         ''  "vivado_proj_folder": "/tmp/finn_dev_ubuntu/synth_out_of_context_iut077er/results_finn_design_wrapper",'',
         ''  "LUT": 8667.0,'',
         ''  "FF": 9063.0,'',
         ''  "DSP": 0.0,'',
         ''  "BRAM": 22.0,'',
         ''  "WNS": 0.946,'',
         ''  "": 0,'',
         ''  "fmax_mhz": 110.44842058758559,'',
         ''  "estimated_throughput_fps": 1725756.5716810247'',
         ''}'']]\<close>

text \<open>
  Cell 29 of the build notebook:
  \<^verbatim>\<open>
  ! cat {rtlsim_output_dir}/report/rtlsim_performance.json
  \<close>
\<close>

definition build_cell_29 :: "stmt list" where
  "build_cell_29 =
     [Shell ''cat {rtlsim_output_dir}/report/rtlsim_performance.json'']"

definition build_out_29 :: "cell_output list" where
  \<open>build_out_29 =
     [Stdout
        [''{'',
         ''  "cycles": 643,'',
         ''  "runtime[ms]": 0.00643,'',
         ''  "throughput[images/s]": 1088646.967340591,'',
         ''  "DRAM_in_bandwidth[Mb/s]": 81.64852255054431,'',
         ''  "DRAM_out_bandwidth[Mb/s]": 0.13608087091757387,'',
         ''  "fclk[mhz]": 100.0,'',
         ''  "N": 7,'',
         ''  "latency_cycles": 211'',
         ''}'']]\<close>

text \<open>
  Cell 31 of the build notebook:
  \<^verbatim>\<open>
  ! cat {rtlsim_output_dir}/final_hw_config.json
  \<close>
\<close>

definition build_cell_31 :: "stmt list" where
  "build_cell_31 =
     [Shell ''cat {rtlsim_output_dir}/final_hw_config.json'']"

definition build_out_31 :: "cell_output list" where
  \<open>build_out_31 =
     [Stdout
        [''{'',
         ''  "Defaults": {},'',
         ''  "StreamingFIFO_0": {'',
         ''    "ram_style": "auto",'',
         ''    "depth": 32,'',
         ''    "impl_style": "rtl"'',
         ''  },'',
         ''  "StreamingFCLayer_Batch_0": {'',
         ''    "PE": 16,'',
         ''    "SIMD": 40,'',
         ''    "ram_style": "auto",'',
         ''    "resType": "lut",'',
         ''    "mem_mode": "decoupled",'',
         ''    "runtime_writeable_weights": 0'',
         ''  },'',
         ''  "StreamingDataWidthConverter_Batch_0": {'',
         ''    "impl_style": "hls"'',
         ''  },'',
         ''  "StreamingFCLayer_Batch_1": {'',
         ''    "PE": 1,'',
         ''    "SIMD": 64,'',
         ''    "ram_style": "auto",'',
         ''    "resType": "lut",'',
         ''    "mem_mode": "decoupled",'',
         ''    "runtime_writeable_weights": 0'',
         ''  },'',
         ''  "StreamingDataWidthConverter_Batch_1": {'',
         ''    "impl_style": "hls"'',
         ''  },'',
         ''  "StreamingFCLayer_Batch_2": {'',
         ''    "PE": 1,'',
         ''    "SIMD": 64,'',
         ''    "ram_style": "auto",'',
         ''    "resType": "lut",'',
         ''    "mem_mode": "decoupled",'',
         ''    "runtime_writeable_weights": 0'',
         ''  },'',
         ''  "StreamingFCLayer_Batch_3": {'',
         ''    "PE": 1,'',
         ''    "SIMD": 1,'',
         ''    "ram_style": "auto",'',
         ''    "resType": "lut",'',
         ''    "mem_mode": "decoupled",'',
         ''    "runtime_writeable_weights": 0'',
         ''  }'',
         ''}'']]\<close>

text \<open>
  Cell 33 of the build notebook:
  \<^verbatim>\<open>
  import finn.builder.build_dataflow as build
  import finn.builder.build_dataflow_config as build_cfg
  import os
  import shutil
  
  model_file = "cybsec-mlp-ready.onnx"
  
  final_output_dir = "output_final"
  
  #Delete previous run results if exist
  if os.path.exists(final_output_dir):
      shutil.rmtree(final_output_dir)
      print("Previous run results deleted!")
  
  cfg = build.DataflowBuildConfig(
      output_dir          = final_output_dir,
      mvau_wwidth_max     = 80,
      target_fps          = 1000000,
      synth_clk_period_ns = 10.0,
      board               = "Pynq-Z1",
      shell_flow_type     = build_cfg.ShellFlowType.VIVADO_ZYNQ,
      generate_outputs=[
          build_cfg.DataflowOutputType.BITFILE,
          build_cfg.DataflowOutputType.PYNQ_DRIVER,
          build_cfg.DataflowOutputType.DEPLOYMENT_PACKAGE,
      ]
  )
  \<close>
\<close>

definition build_cell_33 :: "stmt list" where
  "build_cell_33 =
     [Import ''finn.builder.build_dataflow'' (Some ''build''),
      Import ''finn.builder.build_dataflow_config'' (Some ''build_cfg''),
      Import ''os'' None,
      Import ''shutil'' None,
      Assign ''model_file'' (StrLit ''cybsec-mlp-ready.onnx''),
      Assign ''final_output_dir'' (StrLit ''output_final''),
      Comment ''Delete previous run results if exist'',
      If (Call (Attr (Attr (Name ''os'') ''path'') ''exists'') [Name ''final_output_dir''] []) [Expr (Call (Attr (Name ''shutil'') ''rmtree'') [Name ''final_output_dir''] []), Expr (Call (Name ''print'') [StrLit ''Previous run results deleted!''] [])] [],
      Assign ''cfg'' (Call (Attr (Name ''build'') ''DataflowBuildConfig'') [] [(''output_dir'', Name ''final_output_dir''), (''mvau_wwidth_max'', IntLit 80), (''target_fps'', IntLit 1000000), (''synth_clk_period_ns'', FloatLit 10.0), (''board'', StrLit ''Pynq-Z1''), (''shell_flow_type'', Attr (Attr (Name ''build_cfg'') ''ShellFlowType'') ''VIVADO_ZYNQ''), (''generate_outputs'', ListE [Attr (Attr (Name ''build_cfg'') ''DataflowOutputType'') ''BITFILE'', Attr (Attr (Name ''build_cfg'') ''DataflowOutputType'') ''PYNQ_DRIVER'', Attr (Attr (Name ''build_cfg'') ''DataflowOutputType'') ''DEPLOYMENT_PACKAGE''])])]"

text \<open>
  Cell 34 of the build notebook:
  \<^verbatim>\<open>
  #%%time
  #build.build_dataflow_cfg(model_file, cfg)
  \<close>
\<close>

definition build_cell_34 :: "stmt list" where
  "build_cell_34 =
     [Comment ''%%time'',
      Comment ''build.build_dataflow_cfg(model_file, cfg)'']"

definition build_out_34 :: "cell_output list" where
  "build_out_34 =
     [Stdout
        [''Building dataflow accelerator from cybsec-mlp-ready.onnx'',
         ''Intermediate outputs will be generated in /tmp/finn_dev_ubuntu'',
         ''Final outputs will be generated in output_final'',
         ''Build log is at output_final/build_dataflow.log'',
         ''Running step: step_tidy_up [1/16]'',
         ''Running step: step_streamline [2/16]'',
         ''Running step: step_convert_to_hls [3/16]'',
         ''Running step: step_create_dataflow_partition [4/16]'',
         ''Running step: step_target_fps_parallelization [5/16]'',
         ''Running step: step_apply_folding_config [6/16]'',
         ''Running step: step_generate_estimate_reports [7/16]'',
         ''Running step: step_hls_codegen [8/16]'',
         ''Running step: step_hls_ipgen [9/16]'',
         ''Running step: step_set_fifo_depths [10/16]'',
         ''Running step: step_create_stitched_ip [11/16]'',
         ''Running step: step_measure_rtlsim_performance [12/16]'',
         ''Running step: step_make_pynq_driver [13/16]'',
         ''Running step: step_out_of_context_synthesis [14/16]'',
         ''Running step: step_synthesize_bitfile [15/16]'',
         ''Running step: step_deployment_package [16/16]'',
         ''Completed successfully'',
         ''CPU times: user 4.47 s, sys: 766 ms, total: 5.24 s'',
         ''Wall time: 22min 13s''],
      Result (JInt 0)]"

text \<open>
  Cell 36 of the build notebook:
  \<^verbatim>\<open>
  #! ls {final_output_dir}/bitfile
  \<close>
\<close>

definition build_cell_36 :: "stmt list" where
  "build_cell_36 =
     [Comment ''! ls {final_output_dir}/bitfile'']"

definition build_out_36 :: "cell_output list" where
  "build_out_36 =
     [Stdout
        [''finn-accel.bit'' @ [CHR 0x09] @ ''finn-accel.hwh'']]"

text \<open>
  Cell 38 of the build notebook:
  \<^verbatim>\<open>
  #! ls {final_output_dir}/driver
  \<close>
\<close>

definition build_cell_38 :: "stmt list" where
  "build_cell_38 =
     [Comment ''! ls {final_output_dir}/driver'']"

definition build_out_38 :: "cell_output list" where
  "build_out_38 =
     [Stdout
        [''driver.py  driver_base.py  finn  runtime_weights  validate.py'']]"

text \<open>
  Cell 40 of the build notebook:
  \<^verbatim>\<open>
  #! ls {final_output_dir}/report
  \<close>
\<close>

definition build_cell_40 :: "stmt list" where
  "build_cell_40 =
     [Comment ''! ls {final_output_dir}/report'']"

definition build_out_40 :: "cell_output list" where
  "build_out_40 =
     [Stdout
        [''estimate_layer_resources_hls.json  post_synth_resources.xml'',
         ''post_route_timing.rpt'']]"

text \<open>
  Cell 42 of the build notebook:
  \<^verbatim>\<open>
  #! ls {final_output_dir}/deploy
  \<close>
\<close>

definition build_cell_42 :: "stmt list" where
  "build_cell_42 =
     [Comment ''! ls {final_output_dir}/deploy'']"

definition build_out_42 :: "cell_output list" where
  "build_out_42 =
     [Stdout
        [''bitfile  driver'']]"

text \<open>
  Cell 44 of the build notebook:
  \<^verbatim>\<open>
  #! cp unsw_nb15_binarized.npz {final_output_dir}/deploy/driver
  \<close>
\<close>

definition build_cell_44 :: "stmt list" where
  "build_cell_44 =
     [Comment ''! cp unsw_nb15_binarized.npz {final_output_dir}/deploy/driver'']"

text \<open>
  Cell 45 of the build notebook:
  \<^verbatim>\<open>
  #! cp validate-unsw-nb15.py {final_output_dir}/deploy/driver
  \<close>
\<close>

definition build_cell_45 :: "stmt list" where
  "build_cell_45 =
     [Comment ''! cp validate-unsw-nb15.py {final_output_dir}/deploy/driver'']"

text \<open>
  Cell 46 of the build notebook:
  \<^verbatim>\<open>
  #! ls {final_output_dir}/deploy/driver
  \<close>
\<close>

definition build_cell_46 :: "stmt list" where
  "build_cell_46 =
     [Comment ''! ls {final_output_dir}/deploy/driver'']"

definition build_out_46 :: "cell_output list" where
  "build_out_46 =
     [Stdout
        [''driver.py'' @ [CHR 0x09] @ ''finn'' @ [CHR 0x09] @ [CHR 0x09] @ '' unsw_nb15_binarized.npz  validate.py'',
         ''driver_base.py'' @ [CHR 0x09] @ ''runtime_weights  validate-unsw-nb15.py'']]"

text \<open>
  Cell 47 of the build notebook:
  \<^verbatim>\<open>
  #from shutil import make_archive
  #make_archive('deploy-on-pynq', 'zip', final_output_dir+"/deploy")
  \<close>
\<close>

definition build_cell_47 :: "stmt list" where
  \<open>build_cell_47 =
     [Comment ''from shutil import make_archive'',
      Comment ''make_archive('deploy-on-pynq', 'zip', final_output_dir+"/deploy")'']\<close>

definition build_out_47 :: "cell_output list" where
  "build_out_47 =
     [Result (JStr ''/workspace/finn/notebooks/end2end_example/cybersecurity/deploy-on-pynq.zip'')]"

text \<open>Cell 54 of the build notebook is an empty code cell.\<close>

definition build_cell_54 :: "stmt list" where
  "build_cell_54 =
     []"

definition build_notebook :: "cell list" where
  "build_notebook =
     [Markdown,
      Markdown,
      Markdown,
      Markdown,
      Markdown,
      Code build_cell_5 build_out_5,
      Code build_cell_6 build_out_6,
      Markdown,
      Code build_cell_8 build_out_8,
      Code build_cell_9 build_out_9,
      Markdown,
      Code build_cell_11 build_out_11,
      Markdown,
      Code build_cell_13 [],
      Code build_cell_14 build_out_14,
      Markdown,
      Code build_cell_16 build_out_16,
      Markdown,
      Markdown,
      Code build_cell_19 build_out_19,
      Code build_cell_20 build_out_20,
      Markdown,
      Markdown,
      Code build_cell_23 build_out_23,
      Markdown,
      Code build_cell_25 build_out_25,
      Markdown,
      Code build_cell_27 build_out_27,
      Markdown,
      Code build_cell_29 build_out_29,
      Markdown,
      Code build_cell_31 build_out_31,
      Markdown,
      Code build_cell_33 [],
      Code build_cell_34 build_out_34,
      Markdown,
      Code build_cell_36 build_out_36,
      Markdown,
      Code build_cell_38 build_out_38,
      Markdown,
      Code build_cell_40 build_out_40,
      Markdown,
      Code build_cell_42 build_out_42,
      Markdown,
      Code build_cell_44 [],
      Code build_cell_45 [],
      Code build_cell_46 build_out_46,
      Code build_cell_47 build_out_47,
      Markdown,
      Markdown,
      Markdown,
      Markdown,
      Markdown,
      Markdown,
      Code build_cell_54 []]"

section \<open>Reading the notebooks\<close>


fun cell_source :: "cell \<Rightarrow> stmt list" where
  "cell_source (Code src outs) = src"
| "cell_source Markdown = []"

fun cell_outputs :: "cell \<Rightarrow> cell_output list" where
  "cell_outputs (Code src outs) = outs"
| "cell_outputs Markdown = []"


fun output_lines :: "cell_output \<Rightarrow> string list" where
  "output_lines (Stdout ls) = ls"
| "output_lines (Result v) = []"

fun output_results :: "cell_output \<Rightarrow> json list" where
  "output_results (Stdout ls) = []"
| "output_results (Result v) = [v]"

definition cell_stdout :: "cell \<Rightarrow> string list" where
  "cell_stdout c = concat (map output_lines (cell_outputs c))"

definition cell_results :: "cell \<Rightarrow> json list" where
  "cell_results c = concat (map output_results (cell_outputs c))"

text \<open>
  The subexpressions of an expression that satisfy a predicate, in the order Python
  evaluates them: the callee before the arguments, the arguments from left to right, the
  call itself last.
\<close>

definition keep :: "(expr \<Rightarrow> bool) \<Rightarrow> expr \<Rightarrow> expr list" where
  "keep p e = (if p e then [e] else [])"

fun sub_where :: "(expr \<Rightarrow> bool) \<Rightarrow> expr \<Rightarrow> expr list" where
  "sub_where p (Attr e a) = sub_where p e @ keep p (Attr e a)"
| "sub_where p (Call f args kws) =
     sub_where p f @ concat (map (sub_where p) args)
       @ concat (map (\<lambda>kw. sub_where p (snd kw)) kws) @ keep p (Call f args kws)"
| "sub_where p (Subscript e i) = sub_where p e @ sub_where p i @ keep p (Subscript e i)"
| "sub_where p (BinOp a opr b) = sub_where p a @ sub_where p b @ keep p (BinOp a opr b)"
| "sub_where p (Neg e) = sub_where p e @ keep p (Neg e)"
| "sub_where p (ListE es) = concat (map (sub_where p) es) @ keep p (ListE es)"
| "sub_where p (TupleE es) = concat (map (sub_where p) es) @ keep p (TupleE es)"
| "sub_where p (DictE kvs) =
     concat (map (\<lambda>kv. sub_where p (fst kv) @ sub_where p (snd kv)) kvs)
       @ keep p (DictE kvs)"
| "sub_where p (ListComp e x it) =
     sub_where p it @ sub_where p e @ keep p (ListComp e x it)"
| "sub_where p (Await e) = sub_where p e @ keep p (Await e)"
| "sub_where p e = keep p e"

text \<open>Every statement of a statement, itself first, then the nested ones in order.\<close>

fun substmts :: "stmt \<Rightarrow> stmt list" where
  "substmts (If c a b) = If c a b # concat (map substmts a) @ concat (map substmts b)"
| "substmts (FunDef f ps body) = FunDef f ps body # concat (map substmts body)"
| "substmts (AsyncFunDef f ps body) = AsyncFunDef f ps body # concat (map substmts body)"
| "substmts (With e x body) = With e x body # concat (map substmts body)"
| "substmts (Try body h) = Try body h # concat (map substmts body) @ concat (map substmts h)"
| "substmts (For x e body) = For x e body # concat (map substmts body)"
| "substmts (While e body) = While e body # concat (map substmts body)"
| "substmts (ClassDef c body) = ClassDef c body # concat (map substmts body)"
| "substmts s = [s]"

text \<open>
  The statements that run when a statement runs: a function or class definition runs
  none of its body, a conditional may run either branch.
\<close>

fun run_stmts :: "stmt \<Rightarrow> stmt list" where
  "run_stmts (If c a b) = If c a b # concat (map run_stmts a) @ concat (map run_stmts b)"
| "run_stmts (With e x body) = With e x body # concat (map run_stmts body)"
| "run_stmts (Try body h) = Try body h # concat (map run_stmts body) @ concat (map run_stmts h)"
| "run_stmts (For x e body) = For x e body # concat (map run_stmts body)"
| "run_stmts (While e body) = While e body # concat (map run_stmts body)"
| "run_stmts s = [s]"

text \<open>The expressions a statement holds itself (not those of nested statements).\<close>

fun stmt_exprs :: "stmt \<Rightarrow> expr list" where
  "stmt_exprs (Assign x e) = [e]"
| "stmt_exprs (Expr e) = [e]"
| "stmt_exprs (If c a b) = [c]"
| "stmt_exprs (With e x body) = [e]"
| "stmt_exprs (Return e) = [e]"
| "stmt_exprs (For x e body) = [e]"
| "stmt_exprs (While e body) = [e]"
| "stmt_exprs s = []"

text \<open>The subexpressions with a property in a list of statements (not in nested ones).\<close>

definition exprs_where :: "(expr \<Rightarrow> bool) \<Rightarrow> stmt list \<Rightarrow> expr list" where
  "exprs_where p ss = concat (map (sub_where p) (concat (map stmt_exprs ss)))"

definition all_stmts :: "cell list \<Rightarrow> stmt list" where
  "all_stmts nb = concat (map substmts (concat (map cell_source nb)))"

definition cell_run_stmts :: "cell \<Rightarrow> stmt list" where
  "cell_run_stmts c = concat (map run_stmts (cell_source c))"

definition all_run_stmts :: "cell list \<Rightarrow> stmt list" where
  "all_run_stmts nb = concat (map cell_run_stmts nb)"

fun is_call :: "expr \<Rightarrow> bool" where
  "is_call (Call f args kws) = True"
| "is_call e = False"

text \<open>The name a call is made through: \<^verbatim>\<open>f\<close> for \<^verbatim>\<open>f(...)\<close> and for \<^verbatim>\<open>e.f(...)\<close>.\<close>

fun last_name :: "expr \<Rightarrow> string" where
  "last_name (Name n) = n"
| "last_name (Attr e a) = a"
| "last_name e = []"

fun callee :: "expr \<Rightarrow> string" where
  "callee (Call f args kws) = last_name f"
| "callee e = []"

fun positional :: "expr \<Rightarrow> expr list" where
  "positional (Call f args kws) = args"
| "positional e = []"

fun keyword_names :: "expr \<Rightarrow> string list" where
  "keyword_names (Call f args kws) = map fst kws"
| "keyword_names e = []"

text \<open>
  The calls of a notebook in source order, which is the order they run in when the
  cells are run from top to bottom and no statement is a branch or a definition.
\<close>

definition call_sites :: "cell list \<Rightarrow> expr list" where
  "call_sites nb = exprs_where is_call (all_run_stmts nb)"

definition call_names :: "cell list \<Rightarrow> string list" where
  "call_names nb = map callee (call_sites nb)"

definition calls_to :: "string \<Rightarrow> cell list \<Rightarrow> expr list" where
  "calls_to f nb = filter (\<lambda>e. callee e = f) (call_sites nb)"

fun assigned :: "string \<Rightarrow> stmt \<Rightarrow> expr list" where
  "assigned x (Assign y e) = (if x = y then [e] else [])"
| "assigned x s = []"

definition assignments :: "cell list \<Rightarrow> string \<Rightarrow> expr list" where
  "assignments nb x = concat (map (assigned x) (all_stmts nb))"






fun is_definition :: "stmt \<Rightarrow> bool" where
  "is_definition (FunDef f ps body) = True"
| "is_definition (AsyncFunDef f ps body) = True"
| "is_definition (ClassDef c body) = True"
| "is_definition s = False"


fun is_conditional :: "stmt \<Rightarrow> bool" where
  "is_conditional (If c a b) = True"
| "is_conditional s = False"

fun is_loop :: "stmt \<Rightarrow> bool" where
  "is_loop (For x e body) = True"
| "is_loop (While e body) = True"
| "is_loop s = False"

fun is_try :: "stmt \<Rightarrow> bool" where
  "is_try (Try body h) = True"
| "is_try s = False"

section \<open>What the properties are stated with\<close>

subsection \<open>Library use, display and definitions in a cell\<close>


definition cell_calls :: "cell \<Rightarrow> expr list" where
  "cell_calls c = exprs_where is_call (cell_run_stmts c)"








subsection \<open>Fields of the build configuration\<close>

text \<open>
  The field names behind the configuration fields the specification lists: output
  directory, target frames per second, synthesis clock period, target FPGA part or
  board, selected output products, build steps.
\<close>

definition recognized_fields :: "string list" where
  "recognized_fields =
     [''output_dir'', ''target_fps'', ''synth_clk_period_ns'', ''fpga_part'', ''board'',
      ''generate_outputs'', ''steps'']"

definition config_calls :: "cell list \<Rightarrow> expr list" where
  "config_calls nb = calls_to ''DataflowBuildConfig'' nb"

definition sets_only :: "string list \<Rightarrow> expr \<Rightarrow> bool" where
  "sets_only fields c =
     (positional c = [] \<and> list_all (\<lambda>k. k \<in> set fields) (keyword_names c))"

subsection \<open>Exception handlers and the recorded builds\<close>

definition handlers :: "cell list \<Rightarrow> stmt list" where
  "handlers nb = filter is_try (all_stmts nb)"

definition invokes_build :: "cell \<Rightarrow> bool" where
  "invokes_build c = list_ex (\<lambda>e. callee e = ''build_dataflow_cfg'') (cell_calls c)"

definition build_started :: "cell \<Rightarrow> bool" where
  "build_started c = list_ex (prefix ''Building dataflow accelerator from '') (cell_stdout c)"

text \<open>
  The log of a build is what the cell printed before the timing lines of \<^verbatim>\<open>%%time\<close>.
  The build ended in success when the log's last line says so and the call returned 0.
\<close>

definition build_log :: "cell \<Rightarrow> string list" where
  "build_log c = takeWhile (\<lambda>l. \<not> prefix ''CPU times'' l) (cell_stdout c)"

definition build_completed :: "cell \<Rightarrow> bool" where
  "build_completed c =
     (build_log c \<noteq> [] \<and> last (build_log c) = ''Completed successfully''
        \<and> cell_results c = [JInt 0])"

subsection \<open>Stages of the import notebook\<close>

text \<open>
  The four stages and the calls that belong to them: loading the Brevitas model (1),
  exporting it to ONNX (2), wrapping and transforming the exported model (3), executing
  the transformed model and comparing its output (4).
\<close>

definition stage :: "string \<Rightarrow> nat option" where
  "stage f =
     (if f = ''get_test_model'' then Some 1
      else if f = ''export_finn_onnx'' then Some 2
      else if f \<in> {''ModelWrapper'', ''InferShapes'', ''FoldConstants'', ''transform''} then Some 3
      else if f \<in> {''execute_onnx'', ''isclose''} then Some 4
      else None)"

definition staged_calls :: "cell list \<Rightarrow> string list" where
  "staged_calls nb = filter (\<lambda>f. stage f \<noteq> None) (call_names nb)"

definition stages :: "cell list \<Rightarrow> nat list" where
  "stages nb = List.map_filter stage (call_names nb)"

definition straight_line :: "cell list \<Rightarrow> bool" where
  "straight_line nb =
     (filter (\<lambda>s. is_conditional s \<or> is_loop s \<or> is_definition s \<or> is_try s)
        (all_stmts nb) = [])"

subsection \<open>The estimate reports\<close>

definition estimate_network_performance :: "error + json" where
  "estimate_network_performance = json_loads (unlines (cell_stdout (build_notebook ! 11)))"

definition estimate_layer_cycles :: "json list" where
  "estimate_layer_cycles = cell_results (build_notebook ! 14)"

definition estimate_layer_resources :: "json list" where
  "estimate_layer_resources = cell_results (build_notebook ! 16)"




definition obj_get2 :: "json \<Rightarrow> string \<Rightarrow> string \<Rightarrow> json option" where
  "obj_get2 v a b = (case obj_get v a of None \<Rightarrow> None | Some w \<Rightarrow> obj_get w b)"

subsection \<open>Values the notebook's own expressions denote\<close>

text \<open>
  What an expression of the notebook evaluates to without any library: literals, names
  bound to literals, and the arithmetic operators on them. A library call is opaque.
  Numbers are compared by value, so \<^verbatim>\<open>10\<close> and \<^verbatim>\<open>10.0\<close> are the same number.
\<close>

datatype pyval = VStr string | VNum rat

fun literal_value :: "expr \<Rightarrow> pyval option" where
  "literal_value (StrLit s) = Some (VStr s)"
| "literal_value (IntLit i) = Some (VNum (of_int i))"
| "literal_value (FloatLit r) = Some (VNum r)"
| "literal_value e = None"

fun binding :: "stmt \<Rightarrow> (string \<times> pyval) list" where
  "binding (Assign x e) = (case literal_value e of None \<Rightarrow> [] | Some v \<Rightarrow> [(x, v)])"
| "binding s = []"

definition constants :: "cell list \<Rightarrow> (string \<times> pyval) list" where
  "constants nb = concat (map binding (all_stmts nb))"

fun arith :: "binop \<Rightarrow> rat \<Rightarrow> rat \<Rightarrow> pyval option" where
  "arith OpAdd x y = Some (VNum (x + y))"
| "arith OpSub x y = Some (VNum (x - y))"
| "arith OpMult x y = Some (VNum (x * y))"
| "arith OpDiv x y = (if y = 0 then None else Some (VNum (x / y)))"

fun own_eval :: "(string \<times> pyval) list \<Rightarrow> expr \<Rightarrow> pyval option" where
  "own_eval env (StrLit s) = Some (VStr s)"
| "own_eval env (IntLit i) = Some (VNum (of_int i))"
| "own_eval env (FloatLit r) = Some (VNum r)"
| "own_eval env (Name x) = map_of env x"
| "own_eval env (BinOp a opr b) =
     (case (own_eval env a, own_eval env b) of
        (Some (VStr s), Some (VStr t)) \<Rightarrow> if opr = OpAdd then Some (VStr (s @ t)) else None
      | (Some (VNum x), Some (VNum y)) \<Rightarrow> arith opr x y
      | _ \<Rightarrow> None)"
| "own_eval env (Neg e) =
     (case own_eval env e of Some (VNum x) \<Rightarrow> Some (VNum (- x)) | _ \<Rightarrow> None)"
| "own_eval env e = None"

fun is_operator :: "expr \<Rightarrow> bool" where
  "is_operator (BinOp a opr b) = True"
| "is_operator (Neg e) = True"
| "is_operator e = False"

definition all_exprs :: "cell list \<Rightarrow> expr list" where
  "all_exprs nb = exprs_where (\<lambda>e. True) (all_stmts nb)"

definition operator_nodes :: "cell list \<Rightarrow> expr list" where
  "operator_nodes nb = exprs_where is_operator (all_stmts nb)"

fun number_of :: "pyval option \<Rightarrow> rat list" where
  "number_of (Some (VNum r)) = [r]"
| "number_of v = []"

definition own_numbers :: "cell list \<Rightarrow> rat list" where
  "own_numbers nb = concat (map (\<lambda>e. number_of (own_eval (constants nb) e)) (all_exprs nb))"

text \<open>
  The performance reports the build notebook displays: cells 11, 27 and 29 print a
  report file with \<^verbatim>\<open>cat\<close>, cells 14 and 16 display what \<^verbatim>\<open>read_json_dict\<close> returned.
\<close>

fun decoded :: "error + json \<Rightarrow> json list" where
  "decoded (Inr v) = [v]"
| "decoded (Inl e) = []"

definition printed_report :: "cell \<Rightarrow> json list" where
  "printed_report c = decoded (json_loads (unlines (cell_stdout c)))"

definition performance_reports :: "json list" where
  "performance_reports =
     printed_report (build_notebook ! 11) @ cell_results (build_notebook ! 14)
       @ cell_results (build_notebook ! 16) @ printed_report (build_notebook ! 27)
       @ printed_report (build_notebook ! 29)"

definition shown_numbers :: "rat list" where
  "shown_numbers = concat (map json_numbers performance_reports)"

subsection \<open>Threads, tasks and subprocesses\<close>













section \<open>Collected definitions\<close>

lemmas import_cells =
  import_cell_1_def import_cell_3_def import_cell_5_def import_cell_7_def
  import_cell_8_def import_cell_9_def import_cell_11_def import_cell_13_def
  import_cell_16_def import_cell_18_def import_cell_20_def import_cell_21_def
  import_cell_23_def import_cell_24_def import_cell_26_def import_cell_27_def

lemmas build_cells =
  build_cell_5_def build_cell_6_def build_cell_8_def build_cell_9_def build_cell_11_def
  build_cell_13_def build_cell_14_def build_cell_16_def build_cell_19_def
  build_cell_20_def build_cell_23_def build_cell_25_def build_cell_27_def
  build_cell_29_def build_cell_31_def build_cell_33_def build_cell_34_def
  build_cell_36_def build_cell_38_def build_cell_40_def build_cell_42_def
  build_cell_44_def build_cell_45_def build_cell_46_def build_cell_47_def
  build_cell_54_def

lemmas reader_defs =
  json_loads_def unlines_def scan_number_def is_digit_def digit_val_def nat_of_digits_def

section \<open>Example filesystems\<close>

definition fs_example :: filesystem where
  "fs_example =
     [(''output_estimates_only'', Dir, Access True True),
      (''output_estimates_only/report'', Dir, Access True True),
      (''output_estimates_only/report/estimate_layer_cycles.json'', File ''{}'', Access True True),
      (''cybsec-mlp-ready.onnx'', File ''onnx'', Access True True)]"

text \<open>
  Filesystems in which the output directory cannot be removed: a regular file at its
  path, a symbolic link to a directory, and a directory with a subdirectory that the
  process may not write to.
\<close>

definition fs_file :: filesystem where
  "fs_file = [(''output_estimates_only'', File ''notes'', Access True True)]"

definition fs_link :: filesystem where
  "fs_link =
     [(''output_estimates_only'', Link ''scratch/estimates'', Access True True),
      (''scratch/estimates'', Dir, Access True True)]"

definition fs_locked :: filesystem where
  "fs_locked =
     [(''output_estimates_only'', Dir, Access True True),
      (''output_estimates_only/report'', Dir, Access True False),
      (''output_estimates_only/report/estimate_layer_cycles.json'', File ''{}'', Access True True)]"







section \<open>Facts about the notebooks\<close>

subsection \<open>Cells, definitions and calls\<close>





lemma import_call_names:
  "call_names import_notebook =
     [''showSrc'', ''get_test_model'', ''get_data'', ''load_tensor_from_string'',
      ''to_array'', ''from_numpy'', ''float'', ''reshape'', ''imshow'', ''forward'',
      ''detach'', ''softmax'', ''flatten'', ''range'', ''str'', ''len'', ''arange'',
      ''bar'', ''xticks'', ''ylabel'', ''title'', ''show'', ''export_finn_onnx'',
      ''showInNetron'', ''ModelWrapper'', ''get_initializer'', ''get_tensor_datatype'',
      ''get_tensor_shape'', ''InferShapes'', ''transform'', ''FoldConstants'',
      ''transform'', ''save'', ''showInNetron'', ''to_array'', ''execute_onnx'', ''keys'',
      ''list'', ''isclose'', ''all'']"
  by (simp add: call_names_def call_sites_def all_run_stmts_def cell_run_stmts_def
      exprs_where_def keep_def import_notebook_def import_cells)

subsection \<open>The report files as the notebook prints them\<close>

lemma network_performance_decoded:
  "estimate_network_performance =
     Inr (JObj
       [(''critical_path_cycles'', JInt 252), (''max_cycles'', JInt 64),
        (''max_cycles_node_name'', JStr ''StreamingFCLayer_Batch_1''),
        (''estimated_throughput_fps'', JFloat 1562500.0),
        (''estimated_latency_ns'', JFloat 2520.0)])"
  by (simp add: estimate_network_performance_def build_notebook_def cell_stdout_def
      build_out_11_def reader_defs)

lemma ooc_synth_decoded:
  "printed_report (build_notebook ! 27) =
     [JObj
       [(''vivado_proj_folder'',
         JStr ''/tmp/finn_dev_ubuntu/synth_out_of_context_iut077er/results_finn_design_wrapper''),
        (''LUT'', JFloat 8667.0), (''FF'', JFloat 9063.0), (''DSP'', JFloat 0.0),
        (''BRAM'', JFloat 22.0), (''WNS'', JFloat 0.946), ([], JInt 0),
        (''fmax_mhz'', JFloat 110.44842058758559),
        (''estimated_throughput_fps'', JFloat 1725756.5716810247)]]"
  by (simp add: printed_report_def build_notebook_def cell_stdout_def build_out_27_def
      reader_defs)

lemma rtlsim_performance_decoded:
  "printed_report (build_notebook ! 29) =
     [JObj
       [(''cycles'', JInt 643), (''runtime[ms]'', JFloat 0.00643),
        (''throughput[images/s]'', JFloat 1088646.967340591),
        (''DRAM_in_bandwidth[Mb/s]'', JFloat 81.64852255054431),
        (''DRAM_out_bandwidth[Mb/s]'', JFloat 0.13608087091757387),
        (''fclk[mhz]'', JFloat 100.0), (''N'', JInt 7), (''latency_cycles'', JInt 211)]]"
  by (simp add: printed_report_def build_notebook_def cell_stdout_def build_out_29_def
      reader_defs)

lemma layer_cycles_shown:
  "estimate_layer_cycles =
     [JObj [(''StreamingFCLayer_Batch_0'', JInt 60), (''StreamingFCLayer_Batch_1'', JInt 64),
            (''StreamingFCLayer_Batch_2'', JInt 64), (''StreamingFCLayer_Batch_3'', JInt 64)]]"
  by (simp add: estimate_layer_cycles_def build_notebook_def cell_results_def build_out_14_def)

lemma layer_resources_shown:
  "estimate_layer_resources =
     [JObj
       [(''StreamingFCLayer_Batch_0'',
         JObj [(''BRAM_18K'', JInt 36), (''BRAM_efficiency'', JFloat 0.11574074074074074),
               (''LUT'', JInt 8184), (''URAM'', JInt 0), (''URAM_efficiency'', JInt 1),
               (''DSP'', JInt 0)]),
        (''StreamingFCLayer_Batch_1'',
         JObj [(''BRAM_18K'', JInt 4), (''BRAM_efficiency'', JFloat 0.1111111111111111),
               (''LUT'', JInt 1217), (''URAM'', JInt 0), (''URAM_efficiency'', JInt 1),
               (''DSP'', JInt 0)]),
        (''StreamingFCLayer_Batch_2'',
         JObj [(''BRAM_18K'', JInt 4), (''BRAM_efficiency'', JFloat 0.1111111111111111),
               (''LUT'', JInt 1217), (''URAM'', JInt 0), (''URAM_efficiency'', JInt 1),
               (''DSP'', JInt 0)]),
        (''StreamingFCLayer_Batch_3'',
         JObj [(''BRAM_18K'', JInt 1), (''BRAM_efficiency'', JFloat 0.006944444444444444),
               (''LUT'', JInt 341), (''URAM'', JInt 0), (''URAM_efficiency'', JInt 1),
               (''DSP'', JInt 0)]),
        (''total'',
         JObj [(''BRAM_18K'', JFloat 45.0), (''LUT'', JFloat 10959.0), (''URAM'', JFloat 0.0),
               (''DSP'', JFloat 0.0)])]]"
  by (simp add: estimate_layer_resources_def build_notebook_def cell_results_def
      build_out_16_def)

lemma report_cell_sources:
  "cell_source (build_notebook ! 11) =
     [Shell ''cat {estimates_output_dir}/report/estimate_network_performance.json'']
   \<and> cell_source (build_notebook ! 14) =
     [Expr (Call (Name ''read_json_dict'')
        [BinOp (Name ''estimates_output_dir'') OpAdd
           (StrLit ''/report/estimate_layer_cycles.json'')] [])]
   \<and> cell_source (build_notebook ! 16) =
     [Expr (Call (Name ''read_json_dict'')
        [BinOp (Name ''estimates_output_dir'') OpAdd
           (StrLit ''/report/estimate_layer_resources.json'')] [])]
   \<and> cell_source (build_notebook ! 27) =
     [Shell ''cat {rtlsim_output_dir}/report/ooc_synth_and_timing.json'']
   \<and> cell_source (build_notebook ! 29) =
     [Shell ''cat {rtlsim_output_dir}/report/rtlsim_performance.json'']"
  by (simp add: build_notebook_def build_cell_11_def build_cell_14_def build_cell_16_def
      build_cell_27_def build_cell_29_def)

subsection \<open>Kinds of cells and statements\<close>








lemma import_straight_line: "straight_line import_notebook"
  by (simp add: straight_line_def all_stmts_def import_notebook_def import_cells)


section \<open>Reading back what \<^verbatim>\<open>json.dump\<close> writes\<close>

subsection \<open>Digits and numbers\<close>




























lemma ws_simps [simp]: "ws []" "ws (c # cs) = (is_space c \<and> ws cs)" "ws (u @ v) = (ws u \<and> ws v)"
  by (simp_all add: ws_def)





lemma skip_ws_start: "start_char c \<Longrightarrow> skip_ws (c # cs) = c # cs"
  by (simp add: start_char_def is_space_def)


lemma delim_simps [simp]:
  "delim []" "delim (CHR '','' # s)" "delim (CHR '']'' # s)" "delim (CHR ''}'' # s)"
  by (simp_all add: delim_def)

























subsection \<open>Evaluating the writer, and Python values\<close>




















section \<open>Claim C1: what the code cells consist of\<close>



section \<open>Claim C2: fields set on the build configuration\<close>

lemmas call_site_defs =
  calls_to_def call_sites_def all_run_stmts_def cell_run_stmts_def exprs_where_def keep_def

lemma build_config_keywords:
  "map keyword_names (config_calls build_notebook) =
     [[''output_dir'', ''mvau_wwidth_max'', ''target_fps'', ''synth_clk_period_ns'',
       ''fpga_part'', ''steps'', ''generate_outputs''],
      [''output_dir'', ''mvau_wwidth_max'', ''target_fps'', ''synth_clk_period_ns'',
       ''fpga_part'', ''generate_outputs''],
      [''output_dir'', ''mvau_wwidth_max'', ''target_fps'', ''synth_clk_period_ns'',
       ''board'', ''shell_flow_type'', ''generate_outputs'']]"
  by (simp add: config_calls_def call_site_defs build_notebook_def build_cells)

lemma build_config_positional:
  "map positional (config_calls build_notebook) = [[], [], []]"
  by (simp add: config_calls_def call_site_defs build_notebook_def build_cells)

lemma import_config_calls: "config_calls import_notebook = []"
  by (simp add: config_calls_def call_site_defs import_notebook_def import_cells)

lemma sets_only_iff:
  "list_all (sets_only fields) cs =
     (list_all (\<lambda>p. p = []) (map positional cs)
        \<and> list_all (list_all (\<lambda>k. k \<in> set fields)) (map keyword_names cs))"
  by (induction cs) (auto simp: sets_only_def)

lemma cfg_estimates_call:
  "assignments build_notebook ''cfg_estimates'' =
     [Call (Attr (Name ''build'') ''DataflowBuildConfig'') []
        [(''output_dir'', Name ''estimates_output_dir''), (''mvau_wwidth_max'', IntLit 80),
         (''target_fps'', IntLit 1000000), (''synth_clk_period_ns'', FloatLit 10.0),
         (''fpga_part'', StrLit ''xc7z020clg400-1''),
         (''steps'', Attr (Name ''build_cfg'') ''estimate_only_dataflow_steps''),
         (''generate_outputs'',
          ListE [Attr (Attr (Name ''build_cfg'') ''DataflowOutputType'') ''ESTIMATE_REPORTS''])]]"
  by (simp add: assignments_def all_stmts_def build_notebook_def build_cells)

lemma build_config_calls:
  "config_calls build_notebook =
     assignments build_notebook ''cfg_estimates''
       @ assignments build_notebook ''cfg_stitched_ip''
       @ assignments build_notebook ''cfg''"
  by (simp add: config_calls_def call_site_defs assignments_def all_stmts_def
      build_notebook_def build_cells)

text \<open>
  Claim C2, as stated: every \<^verbatim>\<open>DataflowBuildConfig\<close> sets only fields of the list the
  specification gives. The statement fails at the first configuration,
  \<^verbatim>\<open>cfg_estimates\<close> of cell 5, which sets \<^verbatim>\<open>mvau_wwidth_max = 80\<close>.
\<close>

theorem config_fields_counterexample:
  "hd (assignments build_notebook ''cfg_estimates'') \<in> set (config_calls build_notebook)
   \<and> ''mvau_wwidth_max'' \<in> set (keyword_names (hd (assignments build_notebook ''cfg_estimates'')))
   \<and> ''mvau_wwidth_max'' \<notin> set recognized_fields
   \<and> \<not> sets_only recognized_fields (hd (assignments build_notebook ''cfg_estimates''))
   \<and> \<not> list_all (sets_only recognized_fields) (config_calls build_notebook)"
proof -
  let ?c = "hd (assignments build_notebook ''cfg_estimates'')"
  have m: "?c \<in> set (config_calls build_notebook)"
    by (simp add: build_config_calls cfg_estimates_call)
  have k: "''mvau_wwidth_max'' \<in> set (keyword_names ?c)"
    by (simp add: cfg_estimates_call)
  have r: "''mvau_wwidth_max'' \<notin> set recognized_fields"
    by (simp add: recognized_fields_def)
  have s: "\<not> sets_only recognized_fields ?c"
    using k r by (auto simp: sets_only_def list_all_iff)
  have "\<not> list_all (sets_only recognized_fields) (config_calls build_notebook)"
    using m s by (auto simp: list_all_iff)
  with m k r s show ?thesis by blast
qed

text \<open>
  Claim C2, amended. The material constructs three configurations, all in the build
  notebook and all by keyword arguments only. Each sets fields of the specification's
  list and \<^verbatim>\<open>mvau_wwidth_max\<close>; the third, \<^verbatim>\<open>cfg\<close>, also sets \<^verbatim>\<open>shell_flow_type\<close>. No
  configuration sets any other field.
\<close>

theorem config_fields_set:
  "map keyword_names (config_calls build_notebook) =
     [[''output_dir'', ''mvau_wwidth_max'', ''target_fps'', ''synth_clk_period_ns'',
       ''fpga_part'', ''steps'', ''generate_outputs''],
      [''output_dir'', ''mvau_wwidth_max'', ''target_fps'', ''synth_clk_period_ns'',
       ''fpga_part'', ''generate_outputs''],
      [''output_dir'', ''mvau_wwidth_max'', ''target_fps'', ''synth_clk_period_ns'',
       ''board'', ''shell_flow_type'', ''generate_outputs'']]
   \<and> list_all (sets_only (recognized_fields @ [''mvau_wwidth_max'', ''shell_flow_type'']))
        (config_calls build_notebook)
   \<and> config_calls import_notebook = []"
  by (simp add: sets_only_iff build_config_keywords build_config_positional
      import_config_calls recognized_fields_def)

section \<open>Claim C3: no exception handler, and every recorded build completes\<close>

lemma build_handlers: "handlers build_notebook = []"
  by (simp add: handlers_def all_stmts_def build_notebook_def build_cells)

lemma import_handlers: "handlers import_notebook = []"
  by (simp add: handlers_def all_stmts_def import_notebook_def import_cells)

lemma recorded_builds:
  "filter (\<lambda>c. invokes_build c \<or> build_started c) build_notebook =
     [Code build_cell_6 build_out_6, Code build_cell_20 build_out_20,
      Code build_cell_34 build_out_34]"
  by (simp add: invokes_build_def build_started_def cell_calls_def cell_run_stmts_def
      exprs_where_def keep_def cell_stdout_def build_notebook_def build_cells
      build_out_5_def build_out_6_def build_out_8_def build_out_9_def build_out_11_def
      build_out_14_def build_out_16_def build_out_19_def build_out_20_def build_out_23_def
      build_out_25_def build_out_27_def build_out_29_def build_out_31_def build_out_34_def
      build_out_36_def build_out_38_def build_out_40_def build_out_42_def build_out_46_def
      build_out_47_def)

lemma recorded_builds_completed:
  "list_all build_completed
     [Code build_cell_6 build_out_6, Code build_cell_20 build_out_20,
      Code build_cell_34 build_out_34]"
  by (simp add: build_completed_def build_log_def cell_stdout_def cell_results_def
      build_out_6_def build_out_20_def build_out_34_def)

text \<open>
  Claim C3. Neither notebook has a \<^verbatim>\<open>try\<close> statement, so no build or export call
  stands inside an exception handler. Every cell that invokes the build or shows the
  output of one shows a build that ended in success: the last line of its log is
  \<^verbatim>\<open>Completed successfully\<close> and the call returned 0. These are cells 6 and 20, and
  cell 34, whose call is commented out while its recorded output is kept.
\<close>

theorem builds_complete_without_handlers:
  "handlers build_notebook = [] \<and> handlers import_notebook = []
   \<and> (\<forall>c \<in> set build_notebook. invokes_build c \<or> build_started c \<longrightarrow> build_completed c)
   \<and> filter (\<lambda>c. invokes_build c \<or> build_started c) build_notebook =
        [Code build_cell_6 build_out_6, Code build_cell_20 build_out_20,
         Code build_cell_34 build_out_34]"
proof -
  have "\<forall>c \<in> set build_notebook. invokes_build c \<or> build_started c \<longrightarrow> build_completed c"
  proof (intro ballI impI)
    fix c
    assume "c \<in> set build_notebook" and "invokes_build c \<or> build_started c"
    then have "c \<in> set (filter (\<lambda>c. invokes_build c \<or> build_started c) build_notebook)"
      by simp
    then have "c \<in> set [Code build_cell_6 build_out_6, Code build_cell_20 build_out_20,
                         Code build_cell_34 build_out_34]"
      by (simp only: recorded_builds)
    with recorded_builds_completed show "build_completed c"
      by (auto simp: list_all_iff)
  qed
  with build_handlers import_handlers recorded_builds show ?thesis by blast
qed

theorem builds_complete_witness:
  "Code build_cell_6 build_out_6 \<in> set build_notebook
   \<and> invokes_build (Code build_cell_6 build_out_6)
   \<and> build_completed (Code build_cell_6 build_out_6)
   \<and> last (build_log (Code build_cell_6 build_out_6)) = ''Completed successfully''"
proof -
  have m: "Code build_cell_6 build_out_6 \<in> set build_notebook"
    by (simp add: build_notebook_def)
  have i: "invokes_build (Code build_cell_6 build_out_6)"
    by (simp add: invokes_build_def cell_calls_def cell_run_stmts_def exprs_where_def keep_def
        build_cell_6_def)
  from builds_complete_without_handlers m i
  have c: "build_completed (Code build_cell_6 build_out_6)" by blast
  then have "last (build_log (Code build_cell_6 build_out_6)) = ''Completed successfully''"
    by (simp add: build_completed_def)
  with m i c show ?thesis by blast
qed

section \<open>Claim C4: the order of the stages in the import notebook\<close>

lemma import_data_flow:
  "assignments import_notebook ''lfc'' =
     [Call (Name ''get_test_model'') []
        [(''netname'', StrLit ''LFC''), (''wbits'', IntLit 1), (''abits'', IntLit 1),
         (''pretrained'', BoolLit True)]]
   \<and> map positional (calls_to ''export_finn_onnx'' import_notebook) =
        [[Name ''lfc'', Name ''input_shape'', Name ''export_onnx_path'']]
   \<and> map positional (calls_to ''ModelWrapper'' import_notebook) =
        [[Name ''export_onnx_path'']]
   \<and> assignments import_notebook ''model'' =
        [Call (Name ''ModelWrapper'') [Name ''export_onnx_path''] [],
         Call (Attr (Name ''model'') ''transform'') [Call (Name ''InferShapes'') [] []] [],
         Call (Attr (Name ''model'') ''transform'') [Call (Name ''FoldConstants'') [] []] []]
   \<and> map positional (calls_to ''execute_onnx'' import_notebook) =
        [[Name ''model'', Name ''input_dict'']]
   \<and> map positional (calls_to ''isclose'' import_notebook) =
        [[Name ''produced'', Name ''produced_finn'']]"
  by (simp add: assignments_def all_stmts_def call_site_defs import_notebook_def import_cells)

text \<open>
  Claim C4. Read from top to bottom, the import notebook calls \<^verbatim>\<open>get_test_model\<close>,
  then \<^verbatim>\<open>export_finn_onnx\<close>, then \<^verbatim>\<open>ModelWrapper\<close>, \<^verbatim>\<open>InferShapes\<close> and
  \<^verbatim>\<open>FoldConstants\<close> (each transformation passed to \<^verbatim>\<open>model.transform\<close>), then
  \<^verbatim>\<open>execute_onnx\<close> and \<^verbatim>\<open>np.isclose\<close>: the stage numbers of its calls never decrease.
  The notebook has no branch, loop or definition, so this is the order in which the
  calls run. The export is called on the variable \<^verbatim>\<open>get_test_model\<close> was assigned to,
  the wrapper reads the path the export wrote to, and the execution is given the
  transformed model.
\<close>

theorem import_stages_in_order:
  "staged_calls import_notebook =
     [''get_test_model'', ''export_finn_onnx'', ''ModelWrapper'', ''InferShapes'',
      ''transform'', ''FoldConstants'', ''transform'', ''execute_onnx'', ''isclose'']
   \<and> stages import_notebook = [1, 2, 3, 3, 3, 3, 3, 4, 4]
   \<and> sorted (stages import_notebook)
   \<and> straight_line import_notebook
   \<and> assignments import_notebook ''lfc'' =
        [Call (Name ''get_test_model'') []
           [(''netname'', StrLit ''LFC''), (''wbits'', IntLit 1), (''abits'', IntLit 1),
            (''pretrained'', BoolLit True)]]
   \<and> map positional (calls_to ''export_finn_onnx'' import_notebook) =
        [[Name ''lfc'', Name ''input_shape'', Name ''export_onnx_path'']]
   \<and> map positional (calls_to ''ModelWrapper'' import_notebook) =
        [[Name ''export_onnx_path'']]
   \<and> assignments import_notebook ''model'' =
        [Call (Name ''ModelWrapper'') [Name ''export_onnx_path''] [],
         Call (Attr (Name ''model'') ''transform'') [Call (Name ''InferShapes'') [] []] [],
         Call (Attr (Name ''model'') ''transform'') [Call (Name ''FoldConstants'') [] []] []]
   \<and> map positional (calls_to ''execute_onnx'' import_notebook) =
        [[Name ''model'', Name ''input_dict'']]
   \<and> map positional (calls_to ''isclose'' import_notebook) =
        [[Name ''produced'', Name ''produced_finn'']]"
proof -
  have s: "stages import_notebook = [1, 2, 3, 3, 3, 3, 3, 4, 4]"
    by (simp add: stages_def import_call_names stage_def List.map_filter_simps)
  have c: "staged_calls import_notebook =
     [''get_test_model'', ''export_finn_onnx'', ''ModelWrapper'', ''InferShapes'',
      ''transform'', ''FoldConstants'', ''transform'', ''execute_onnx'', ''isclose'']"
    by (simp add: staged_calls_def import_call_names stage_def)
  have "sorted (stages import_notebook)"
    by (simp add: s)
  with s c import_straight_line import_data_flow show ?thesis
    by (intro conjI) simp_all
qed

section \<open>Claim C5: contents of the estimate reports\<close>


text \<open>
  The three reports agree with each other: the critical path is the sum of the layers'
  cycles, the maximum is that of the slowest layer, and the totals are the sums.
\<close>

lemma estimate_reports_consistent:
  "\<exists>perf cyc res. estimate_network_performance = Inr perf \<and> estimate_layer_cycles = [cyc]
     \<and> estimate_layer_resources = [res]
     \<and> obj_get perf ''critical_path_cycles'' = Some (JInt (60 + 64 + 64 + 64))
     \<and> obj_get perf ''max_cycles'' = Some (JInt (Max {60, 64, 64, 64}))
     \<and> obj_get perf ''max_cycles_node_name'' = Some (JStr ''StreamingFCLayer_Batch_1'')
     \<and> obj_get cyc ''StreamingFCLayer_Batch_1'' = obj_get perf ''max_cycles''
     \<and> obj_get2 res ''total'' ''BRAM_18K'' = Some (JFloat (36 + 4 + 4 + 1))
     \<and> obj_get2 res ''total'' ''LUT'' = Some (JFloat (8184 + 1217 + 1217 + 341))"
  by (simp add: network_performance_decoded layer_cycles_shown layer_resources_shown
      obj_get2_def)

section \<open>Claim C6: no performance value is computed by the notebooks\<close>

lemma build_operator_nodes:
  "operator_nodes build_notebook =
     [BinOp (Name ''estimates_output_dir'') OpAdd (StrLit ''/report/estimate_layer_cycles.json''),
      BinOp (Name ''estimates_output_dir'') OpAdd
        (StrLit ''/report/estimate_layer_resources.json'')]"
  by (simp add: operator_nodes_def exprs_where_def keep_def all_stmts_def
      build_notebook_def build_cells)

lemma build_constants:
  "constants build_notebook =
     [(''model_file'', VStr ''cybsec-mlp-ready.onnx''),
      (''estimates_output_dir'', VStr ''output_estimates_only''),
      (''model_file'', VStr ''cybsec-mlp-ready.onnx''),
      (''rtlsim_output_dir'', VStr ''output_ipstitch_ooc_rtlsim''),
      (''model_file'', VStr ''cybsec-mlp-ready.onnx''),
      (''final_output_dir'', VStr ''output_final'')]"
  by (simp add: constants_def all_stmts_def build_notebook_def build_cells)

lemma build_own_numbers:
  "own_numbers build_notebook = [80, 1000000, 10, 80, 1000000, 10, 80, 1000000, 10]"
  unfolding own_numbers_def build_constants
  by (simp add: all_exprs_def exprs_where_def keep_def all_stmts_def build_notebook_def build_cells)

lemma build_operator_values:
  "map (own_eval (constants build_notebook)) (operator_nodes build_notebook) =
     [Some (VStr ''output_estimates_only/report/estimate_layer_cycles.json''),
      Some (VStr ''output_estimates_only/report/estimate_layer_resources.json'')]"
  by (simp add: build_operator_nodes build_constants)

lemma shown_numbers_list:
  "shown_numbers =
     [252, 64, 1562500.0, 2520.0, 60, 64, 64, 64,
      36, 0.11574074074074074, 8184, 0, 1, 0,
      4, 0.1111111111111111, 1217, 0, 1, 0,
      4, 0.1111111111111111, 1217, 0, 1, 0,
      1, 0.006944444444444444, 341, 0, 1, 0,
      45.0, 10959.0, 0.0, 0.0,
      8667.0, 9063.0, 0.0, 22.0, 0.946, 0, 110.44842058758559, 1725756.5716810247,
      643, 0.00643, 1088646.967340591, 81.64852255054431, 0.13608087091757387, 100.0, 7, 211]"
  using network_performance_decoded
  by (simp add: shown_numbers_def performance_reports_def printed_report_def
      estimate_network_performance_def
      ooc_synth_decoded [unfolded printed_report_def]
      rtlsim_performance_decoded [unfolded printed_report_def]
      layer_cycles_shown [unfolded estimate_layer_cycles_def]
      layer_resources_shown [unfolded estimate_layer_resources_def])

lemma import_shows_nothing: "concat (map cell_outputs import_notebook) = []"
  by (simp add: import_notebook_def)

text \<open>
  Claim C6. The only operators in the build notebook's code are two string
  concatenations that build the paths of report files; no operator yields a number. The
  only numbers its expressions denote are the literals 80, 1000000 and 10.0 of the three
  configurations, and none of the numbers of the displayed performance reports (among
  them the throughput estimate 1562500 and the 643 simulated cycles) is one of these.
  The reports are shown by \<^verbatim>\<open>cat\<close> and by \<^verbatim>\<open>read_json_dict\<close>, which returns what
  \<^verbatim>\<open>json.load\<close> decoded. The import notebook has no recorded output at all.
\<close>

theorem performance_values_not_computed:
  "map (own_eval (constants build_notebook)) (operator_nodes build_notebook) =
     [Some (VStr ''output_estimates_only/report/estimate_layer_cycles.json''),
      Some (VStr ''output_estimates_only/report/estimate_layer_resources.json'')]
   \<and> own_numbers build_notebook = [80, 1000000, 10, 80, 1000000, 10, 80, 1000000, 10]
   \<and> list_all (\<lambda>r. r \<notin> set (own_numbers build_notebook)) shown_numbers
   \<and> 1562500 \<in> set shown_numbers \<and> 643 \<in> set shown_numbers
   \<and> map cell_source [build_notebook ! 11, build_notebook ! 27, build_notebook ! 29] =
        [[Shell ''cat {estimates_output_dir}/report/estimate_network_performance.json''],
         [Shell ''cat {rtlsim_output_dir}/report/ooc_synth_and_timing.json''],
         [Shell ''cat {rtlsim_output_dir}/report/rtlsim_performance.json'']]
   \<and> map cell_source [build_notebook ! 14, build_notebook ! 16] =
        [[Expr (Call (Name ''read_json_dict'')
            [BinOp (Name ''estimates_output_dir'') OpAdd
               (StrLit ''/report/estimate_layer_cycles.json'')] [])],
         [Expr (Call (Name ''read_json_dict'')
            [BinOp (Name ''estimates_output_dir'') OpAdd
               (StrLit ''/report/estimate_layer_resources.json'')] [])]]
   \<and> concat (map cell_outputs import_notebook) = []"
  by (simp add: build_operator_values build_own_numbers shown_numbers_list
      import_shows_nothing report_cell_sources)

section \<open>Claim C7: threads, tasks and subprocesses\<close>







section \<open>Claim C8: \<^verbatim>\<open>read_json_dict\<close> on a file that \<^verbatim>\<open>json.dump\<close> wrote\<close>

lemma resolve_numeral:
  "resolve (numeral k) fs p =
     (case map_of fs p of
        None \<Rightarrow> Missing p
      | Some (Link t, a) \<Rightarrow> resolve (pred_numeral k) fs t
      | Some (nd, a) \<Rightarrow> Found p nd a)"
  by (simp add: numeral_eq_Suc)

lemma stat_file: "map_of fs p = Some (File t, a) \<Longrightarrow> stat fs p = Found p (File t) a"
  by (simp add: stat_def resolve_numeral)

lemma stat_dir: "map_of fs p = Some (Dir, a) \<Longrightarrow> stat fs p = Found p Dir a"
  by (simp add: stat_def resolve_numeral)

lemma stat_missing: "map_of fs p = None \<Longrightarrow> stat fs p = Missing p"
  by (simp add: stat_def resolve_numeral)

lemma stat_link: "map_of fs p = Some (Link t, a) \<Longrightarrow> stat fs p = resolve 40 fs t"
  by (simp add: stat_def resolve_numeral)

lemma py_open_keeps_filesystem:
  "py_open fs filename mode = Inr (fs', f) \<Longrightarrow> fs' = fs"
  by (cases mode)
     (auto simp: py_open_def split: resolved.splits node.splits if_splits)

lemma read_json_dict_keeps_filesystem:
  "snd (read_json_dict json_load fs filename) = fs"
proof (cases "py_open fs filename Mode_r")
  case (Inl e)
  then show ?thesis by (simp add: read_json_dict_def)
next
  case (Inr r)
  obtain fs' f where r: "r = (fs', f)" by (cases r)
  with Inr py_open_keeps_filesystem [of fs filename Mode_r fs' f] show ?thesis
    by (simp add: read_json_dict_def)
qed







section \<open>Claim C9: the cleanup block\<close>

lemma map_of_filter_fst:
  "map_of (filter (\<lambda>e. P (fst e)) fs) p = (if P p then map_of fs p else None)"
  by (induction fs) auto

lemma map_of_remove_tree:
  "map_of (remove_tree fs d) p = (if in_tree d p then None else map_of fs p)"
  using map_of_filter_fst [of "\<lambda>q. \<not> in_tree d q" fs p] by (simp add: remove_tree_def)

lemma not_exists_remove_tree: "\<not> os_path_exists (remove_tree fs d) d"
proof -
  have "map_of (remove_tree fs d) d = None"
    by (simp add: map_of_remove_tree in_tree_def)
  then show ?thesis by (simp add: os_path_exists_def stat_missing)
qed

lemma cleanup_block_absent:
  "\<not> os_path_exists fs d \<Longrightarrow> cleanup_block d (fs, out) = Inr (fs, out)"
  by (simp add: cleanup_block_def)

lemma exists_entry: "os_path_exists fs d \<Longrightarrow> \<exists>nd a. map_of fs d = Some (nd, a)"
  by (cases "map_of fs d") (auto simp: os_path_exists_def stat_missing)

lemma exists_dir: "map_of fs d = Some (Dir, a) \<Longrightarrow> os_path_exists fs d"
  by (simp add: os_path_exists_def stat_dir)

lemma exists_file: "map_of fs d = Some (File t, a) \<Longrightarrow> os_path_exists fs d"
  by (simp add: os_path_exists_def stat_file)

lemma cleanup_block_dir:
  assumes "map_of fs d = Some (Dir, a)" and "removable_tree fs d"
  shows "cleanup_block d (fs, out) =
           Inr (remove_tree fs d, out @ [''Previous run results deleted!''])"
  using assms exists_dir [OF assms(1)] by (simp add: cleanup_block_def shutil_rmtree_def)

lemma cleanup_block_locked:
  assumes "map_of fs d = Some (Dir, a)" and "\<not> removable_tree fs d"
  shows "cleanup_block d (fs, out) = Inl PermissionError"
  using assms exists_dir [OF assms(1)] by (simp add: cleanup_block_def shutil_rmtree_def)

lemma cleanup_block_file:
  assumes "map_of fs d = Some (File t, a)"
  shows "cleanup_block d (fs, out) = Inl NotADirectoryError"
  using assms exists_file [OF assms] by (simp add: cleanup_block_def shutil_rmtree_def)

lemma cleanup_block_link:
  assumes "map_of fs d = Some (Link t, a)" and "os_path_exists fs d"
  shows "cleanup_block d (fs, out) = Inl OSError"
  using assms by (simp add: cleanup_block_def shutil_rmtree_def)

lemma cleanup_block_returns:
  "(\<exists>s. cleanup_block d (fs, out) = Inr s)
     = (\<not> os_path_exists fs d \<or> (\<exists>a. map_of fs d = Some (Dir, a)) \<and> removable_tree fs d)"
proof (cases "os_path_exists fs d")
  case False
  then show ?thesis by (simp add: cleanup_block_absent)
next
  case True
  then obtain nd a where e: "map_of fs d = Some (nd, a)" using exists_entry by blast
  show ?thesis
  proof (cases nd)
    case (File t)
    with e True show ?thesis by (simp add: cleanup_block_file)
  next
    case Dir
    with e True show ?thesis
      by (cases "removable_tree fs d") (simp_all add: cleanup_block_dir cleanup_block_locked)
  next
    case (Link t)
    with e True show ?thesis by (simp add: cleanup_block_link)
  qed
qed

lemma cleanup_block_result:
  assumes "cleanup_block d (fs, out) = Inr (fs', out')"
  shows "(fs', out') = (if os_path_exists fs d
                        then (remove_tree fs d, out @ [''Previous run results deleted!''])
                        else (fs, out))"
  using assms
  by (auto simp: cleanup_block_def split: if_splits sum.splits)
     (auto simp: shutil_rmtree_def split: option.splits node.splits if_splits)

text \<open>
  Claim C9, as stated: each cleanup block succeeds without raising whether or not the
  directory exists beforehand. The statement fails when \<^verbatim>\<open>os.path.exists\<close> is true and
  \<^verbatim>\<open>shutil.rmtree\<close> cannot remove what is there: a regular file at the path of the
  output directory (\<^verbatim>\<open>NotADirectoryError\<close>), a symbolic link to a directory
  (\<^verbatim>\<open>OSError\<close>), a directory with an entry that the process may not remove
  (\<^verbatim>\<open>PermissionError\<close>).
\<close>

theorem cleanup_block_counterexample:
  "os_path_exists fs_file estimates_output_dir
   \<and> cleanup_block estimates_output_dir (fs_file, []) = Inl NotADirectoryError
   \<and> os_path_exists fs_link estimates_output_dir
   \<and> cleanup_block estimates_output_dir (fs_link, []) = Inl OSError
   \<and> os_path_exists fs_locked estimates_output_dir
   \<and> cleanup_block estimates_output_dir (fs_locked, []) = Inl PermissionError"
  by (simp add: cleanup_block_def os_path_exists_def stat_def resolve_numeral shutil_rmtree_def
      fs_file_def fs_link_def fs_locked_def estimates_output_dir_def removable_tree_def
      tree_entries_def in_tree_def below_def may_remove_def may_list_def dirname_def)

text \<open>
  Claim C9, amended. A cleanup block returns without raising exactly when
  \<^verbatim>\<open>os.path.exists\<close> is false for the directory beforehand, or the path is a directory
  whose tree the process may list and remove. Whenever the block returns,
  \<^verbatim>\<open>os.path.exists\<close> is false for the directory afterwards, the directory and all
  below it are gone if it existed, every path outside it is as before, and running the
  block again returns the same state: the second run removes and prints nothing. When
  the path is a regular file, a link to something that exists, or a directory with an
  entry that may not be listed or removed, the block raises \<^verbatim>\<open>NotADirectoryError\<close>,
  \<^verbatim>\<open>OSError\<close> or \<^verbatim>\<open>PermissionError\<close>.
\<close>

theorem cleanup_block_outcomes:
  "((\<exists>s. cleanup_block d (fs, out) = Inr s)
      = (\<not> os_path_exists fs d \<or> (\<exists>a. map_of fs d = Some (Dir, a)) \<and> removable_tree fs d))
   \<and> (\<forall>fs' out'. cleanup_block d (fs, out) = Inr (fs', out') \<longrightarrow>
          \<not> os_path_exists fs' d
        \<and> (\<forall>p. os_path_exists fs d \<and> in_tree d p \<longrightarrow> map_of fs' p = None)
        \<and> (\<forall>p. \<not> in_tree d p \<longrightarrow> map_of fs' p = map_of fs p)
        \<and> cleanup_block d (fs', out') = Inr (fs', out'))
   \<and> (\<forall>t a. map_of fs d = Some (File t, a) \<longrightarrow>
          cleanup_block d (fs, out) = Inl NotADirectoryError)
   \<and> (\<forall>t a. map_of fs d = Some (Link t, a) \<and> os_path_exists fs d \<longrightarrow>
          cleanup_block d (fs, out) = Inl OSError)
   \<and> (\<forall>a. map_of fs d = Some (Dir, a) \<and> \<not> removable_tree fs d \<longrightarrow>
          cleanup_block d (fs, out) = Inl PermissionError)"
proof (intro conjI allI impI)
  show "(\<exists>s. cleanup_block d (fs, out) = Inr s)
          = (\<not> os_path_exists fs d \<or> (\<exists>a. map_of fs d = Some (Dir, a)) \<and> removable_tree fs d)"
    by (rule cleanup_block_returns)
next
  fix fs' out' assume r: "cleanup_block d (fs, out) = Inr (fs', out')"
  note res = cleanup_block_result [OF r]
  show n: "\<not> os_path_exists fs' d"
    using res not_exists_remove_tree [of fs d] by (cases "os_path_exists fs d") simp_all
  show "cleanup_block d (fs', out') = Inr (fs', out')"
    using n by (rule cleanup_block_absent)
  show "map_of fs' p = None" if "os_path_exists fs d \<and> in_tree d p" for p
    using res that by (simp add: map_of_remove_tree)
  show "map_of fs' p = map_of fs p" if "\<not> in_tree d p" for p
    using res that by (cases "os_path_exists fs d") (simp_all add: map_of_remove_tree)
next
  fix t a assume "map_of fs d = Some (File t, a)"
  then show "cleanup_block d (fs, out) = Inl NotADirectoryError" by (rule cleanup_block_file)
next
  fix t a assume "map_of fs d = Some (Link t, a) \<and> os_path_exists fs d"
  then show "cleanup_block d (fs, out) = Inl OSError" by (simp add: cleanup_block_link)
next
  fix a assume "map_of fs d = Some (Dir, a) \<and> \<not> removable_tree fs d"
  then show "cleanup_block d (fs, out) = Inl PermissionError" by (simp add: cleanup_block_locked)
qed

theorem cleanup_block_outcomes_witness:
  "os_path_exists fs_example estimates_output_dir
   \<and> removable_tree fs_example estimates_output_dir
   \<and> cleanup_block estimates_output_dir (fs_example, [])
       = Inr ([(''cybsec-mlp-ready.onnx'', File ''onnx'', Access True True)],
              [''Previous run results deleted!''])
   \<and> \<not> os_path_exists [(''cybsec-mlp-ready.onnx'', File ''onnx'', Access True True)]
          estimates_output_dir
   \<and> cleanup_block estimates_output_dir
        ([(''cybsec-mlp-ready.onnx'', File ''onnx'', Access True True)],
         [''Previous run results deleted!''])
       = Inr ([(''cybsec-mlp-ready.onnx'', File ''onnx'', Access True True)],
              [''Previous run results deleted!''])
   \<and> map_of fs_file estimates_output_dir = Some (File ''notes'', Access True True)
   \<and> cleanup_block estimates_output_dir (fs_file, []) = Inl NotADirectoryError"
proof -
  let ?rest = "[(''cybsec-mlp-ready.onnx'', File ''onnx'', Access True True)]"
  let ?out = "[''Previous run results deleted!'']"
  have e: "os_path_exists fs_example estimates_output_dir"
    by (simp add: os_path_exists_def stat_def resolve_numeral fs_example_def
        estimates_output_dir_def)
  have t: "removable_tree fs_example estimates_output_dir"
    by (simp add: removable_tree_def tree_entries_def in_tree_def below_def may_remove_def
        may_list_def dirname_def fs_example_def estimates_output_dir_def)
  have c: "cleanup_block estimates_output_dir (fs_example, []) = Inr (?rest, ?out)"
    using e t
    by (simp add: cleanup_block_def shutil_rmtree_def)
       (simp add: remove_tree_def in_tree_def below_def fs_example_def estimates_output_dir_def)
  have f: "map_of fs_file estimates_output_dir = Some (File ''notes'', Access True True)"
    by (simp add: fs_file_def estimates_output_dir_def)
  note o = cleanup_block_outcomes [of estimates_output_dir fs_example "[]"]
  from o c have "\<not> os_path_exists ?rest estimates_output_dir
      \<and> cleanup_block estimates_output_dir (?rest, ?out) = Inr (?rest, ?out)"
    by blast
  moreover from cleanup_block_outcomes [of estimates_output_dir fs_file "[]"] f
  have "cleanup_block estimates_output_dir (fs_file, []) = Inl NotADirectoryError"
    by blast
  ultimately show ?thesis using e t c f by simp
qed

end
